theory Spec2Isabelle
  imports Main
begin

section \<open>Data model (src/unnamed/part\_005, the types module)\<close>

text \<open>
  Addresses, hashes and symbols are JavaScript strings; \<open>bigint\<close> values are unbounded
  integers. An optional property (\<open>x?: T\<close>) is an \<open>option\<close>, with \<open>None\<close> standing
  for \<open>undefined\<close> (or \<open>null\<close> where the type says so).
\<close>

type_synonym address = string

datatype NFTProvider = Manifold | Opensea | Zora | Generic | Nfts2me | Thirdweb

record Claim =
  cost :: int
  merkleRoot :: string
  erc20 :: address
  startDate :: int
  endDate :: int
  walletMax :: int

record ClaimCondition =
  cc_id :: int
  pricePerToken :: int
  currency :: address
  maxClaimableSupply :: int
  cc_merkleRoot :: string
  startTimestamp :: int
  quantityLimitPerWallet :: int

record NFTContractInfo =
  provider :: NFTProvider
  isERC1155 :: bool
  isERC721 :: bool
  extensionAddress :: "address option"
  hasManifoldExtension :: "bool option"
  ci_mintPrice :: "int option"
  erc20Token :: "address option"
  erc20Symbol :: "string option"
  erc20Decimals :: "int option"
  claim :: "Claim option"
  claimCondition :: "ClaimCondition option"

record MintParams =
  contractAddress :: address
  chainId :: int
  mp_provider :: "NFTProvider option"
  amount :: "int option"
  instanceId :: "string option"
  tokenId :: "string option"
  recipient :: "address option"
  merkleProof :: "string list option"

section \<open>JavaScript values and built-ins used by the modelled code\<close>

text \<open>
  A thrown JavaScript exception is a value of \<open>exn\<close>; a computation that may throw
  returns \<open>exn + 'a\<close> with \<open>Inl\<close> the exception. \<open>ReadError\<close> is the rejection of a
  \<open>client.readContract\<close> call (network failure, revert, ABI mismatch).
\<close>

datatype exn =
  ReadError string
  | SyntaxError string
  | TypeError string
  | InvalidAddressError string
  | JsError string

type_synonym 'a result = "exn + 'a"

text \<open>\<open>try { ... } catch { ... }\<close> and \<open>promise.catch(() => d)\<close>.\<close>

definition and_then :: "'a result \<Rightarrow> ('a \<Rightarrow> 'b result) \<Rightarrow> 'b result" where
  "and_then r f = (case r of Inl e \<Rightarrow> Inl e | Inr v \<Rightarrow> f v)"

definition catch_default :: "'a result \<Rightarrow> 'a \<Rightarrow> 'a" where
  "catch_default r d = (case r of Inl e \<Rightarrow> d | Inr v \<Rightarrow> v)"

definition catch_null :: "'a result \<Rightarrow> 'a option" where
  "catch_null r = (case r of Inl e \<Rightarrow> None | Inr v \<Rightarrow> Some v)"

text \<open>\<open>x || BigInt(0)\<close> on an optional bigint: zero and \<open>undefined\<close> are both falsy.\<close>

definition or_zero :: "int option \<Rightarrow> int" where
  "or_zero x = (case x of None \<Rightarrow> 0 | Some v \<Rightarrow> (if v \<noteq> 0 then v else 0))"

text \<open>Truthiness of a string and of an optional string (\<open>undefined\<close> and \<open>""\<close> are falsy).\<close>

definition truthy_str :: "string option \<Rightarrow> bool" where
  "truthy_str s = (case s of None \<Rightarrow> False | Some t \<Rightarrow> t \<noteq> [])"

text \<open>
  \<open>String.prototype.toLowerCase\<close>, \<open>startsWith\<close>, \<open>endsWith\<close>, \<open>includes\<close>,
  \<open>padStart(n, "0")\<close> and \<open>replace(pattern, replacement)\<close> with a string pattern (first
  occurrence only). Strings are byte strings here: only the ASCII letters are
  lower-cased, every other byte is left as it is.
\<close>

definition toLowerCase :: "string \<Rightarrow> string" where
  "toLowerCase s =
     map (\<lambda>c. if 65 \<le> (of_char c :: nat) \<and> (of_char c :: nat) \<le> 90
               then char_of ((of_char c :: nat) + 32) else c) s"

fun startsWith :: "string \<Rightarrow> string \<Rightarrow> bool" where
  "startsWith s [] = True"
| "startsWith [] (p # ps) = False"
| "startsWith (c # cs) (p # ps) = (c = p \<and> startsWith cs ps)"

definition endsWith :: "string \<Rightarrow> string \<Rightarrow> bool" where
  "endsWith s p = startsWith (rev s) (rev p)"

fun str_includes :: "string \<Rightarrow> string \<Rightarrow> bool" where
  "str_includes [] p = (p = [])"
| "str_includes (c # cs) p = (startsWith (c # cs) p \<or> str_includes cs p)"

definition padStart_zero :: "nat \<Rightarrow> string \<Rightarrow> string" where
  "padStart_zero n s = replicate (n - length s) (CHR ''0'') @ s"

fun replace_first :: "string \<Rightarrow> string \<Rightarrow> string \<Rightarrow> string" where
  "replace_first [] p r = (if p = [] then r else [])"
| "replace_first (c # cs) p r =
     (if startsWith (c # cs) p then r @ drop (length p) (c # cs)
      else c # replace_first cs p r)"

text \<open>
  \<open>BigInt(string)\<close> (ECMAScript StringToBigInt): surrounding white space is trimmed,
  the empty string is \<open>0n\<close>, a decimal literal may carry a sign, a literal with a
  \<open>0x\<close>, \<open>0o\<close> or \<open>0b\<close> prefix may not, and anything else throws a \<open>SyntaxError\<close>.
  White space is the ASCII white space (tab, line feed, vertical tab, form feed,
  carriage return, space).
\<close>

definition is_ws :: "char \<Rightarrow> bool" where
  "is_ws c = ((of_char c :: nat) \<in> {9, 10, 11, 12, 13, 32})"

definition trim :: "string \<Rightarrow> string" where
  "trim s = rev (dropWhile is_ws (rev (dropWhile is_ws s)))"

definition digit_val :: "char \<Rightarrow> nat option" where
  "digit_val c =
     (let n = (of_char c :: nat) in
      if 48 \<le> n \<and> n \<le> 57 then Some (n - 48)
      else if 97 \<le> n \<and> n \<le> 102 then Some (n - 87)
      else if 65 \<le> n \<and> n \<le> 70 then Some (n - 55)
      else None)"

fun parse_digits :: "nat \<Rightarrow> nat \<Rightarrow> string \<Rightarrow> nat option" where
  "parse_digits base acc [] = Some acc"
| "parse_digits base acc (c # cs) =
     (case digit_val c of
        None \<Rightarrow> None
      | Some d \<Rightarrow> if d < base then parse_digits base (acc * base + d) cs else None)"

definition parse_nonempty :: "nat \<Rightarrow> string \<Rightarrow> int option" where
  "parse_nonempty base ds =
     (if ds = [] then None else map_option int (parse_digits base 0 ds))"

definition StringToBigInt :: "string \<Rightarrow> int option" where
  "StringToBigInt s =
     (let t = trim s in
      if t = [] then Some 0
      else if startsWith t ''0x'' \<or> startsWith t ''0X'' then parse_nonempty 16 (drop 2 t)
      else if startsWith t ''0o'' \<or> startsWith t ''0O'' then parse_nonempty 8 (drop 2 t)
      else if startsWith t ''0b'' \<or> startsWith t ''0B'' then parse_nonempty 2 (drop 2 t)
      else if startsWith t ''-'' then map_option uminus (parse_nonempty 10 (drop 1 t))
      else if startsWith t ''+'' then parse_nonempty 10 (drop 1 t)
      else parse_nonempty 10 t)"

definition BigInt :: "string \<Rightarrow> int result" where
  "BigInt s =
     (case StringToBigInt s of
        None \<Rightarrow> Inl (SyntaxError (''Cannot convert '' @ s @ '' to a BigInt''))
      | Some n \<Rightarrow> Inr n)"

text \<open>\<open>n.toString()\<close> of a bigint: its decimal digits.\<close>

function digits_of_nat :: "nat \<Rightarrow> string" where
  "digits_of_nat n =
     (if n < 10 then [char_of (48 + n)]
      else digits_of_nat (n div 10) @ [char_of (48 + n mod 10)])"
  by pat_completeness auto
termination
  by (relation "measure id") auto

definition bigint_toString :: "int \<Rightarrow> string" where
  "bigint_toString i =
     (if i < 0 then CHR ''-'' # digits_of_nat (nat (- i)) else digits_of_nat (nat i))"

text \<open>
  viem's \<open>getAddress\<close>: throws unless the argument is \<open>0x\<close> followed by forty hexadecimal
  digits. The EIP-55 re-casing of the returned address is not modelled: the address is
  returned as given.
\<close>

definition isAddress :: "string \<Rightarrow> bool" where
  "isAddress a =
     (startsWith a ''0x'' \<and> length a = 42 \<and> list_all (\<lambda>c. digit_val c \<noteq> None) (drop 2 a))"

definition getAddress :: "string \<Rightarrow> address result" where
  "getAddress a =
     (if isAddress a then Inr a
      else Inl (InvalidAddressError (''Address '' @ a @ '' is invalid'')))"

section \<open>Contract standards catalog (src/src/lib/mint-reducer.ts, the nft-standards module)\<close>

text \<open>
  The ABI tables of the catalog, by name. The two Manifold extension ABIs differ in the
  tuple \<open>getClaim\<close> returns; the two anonymous ABIs of the nfts2me configuration get
  names of their own.
\<close>

datatype Abi =
  MANIFOLD_ERC721_EXTENSION_ABI
  | MANIFOLD_ERC1155_EXTENSION_ABI
  | PRICE_DISCOVERY_ABI
  | MINT_ABI
  | THIRDWEB_OPENEDITONERC721_ABI
  | NFTS2ME_MINTFEE_ABI
  | NFTS2ME_MINT_ABI

definition MANIFOLD_EXTENSION_ABI :: Abi where
  "MANIFOLD_EXTENSION_ABI = MANIFOLD_ERC721_EXTENSION_ABI"

definition manifoldExtension :: address where
  "manifoldExtension = ''0x26BBEA7803DcAc346D5F5f135b57Cf2c752A02bE''"

definition THIRDWEB_NATIVE_TOKEN :: address where
  "THIRDWEB_NATIVE_TOKEN = ''0xEeeeeEeeeEeEeeEeEeEeeEEEeeeeEeeeeeeeEEeE''"

definition ZERO_ADDRESS :: address where
  "ZERO_ADDRESS = ''0x0000000000000000000000000000000000000000''"

definition INTERFACE_ID_ERC721 :: string where
  "INTERFACE_ID_ERC721 = ''0x80ac58cd''"

definition INTERFACE_ID_ERC1155 :: string where
  "INTERFACE_ID_ERC1155 = ''0xd9b67a26''"

definition maxUint256 :: int where
  "maxUint256 = 2 ^ 256 - 1"

section \<open>Provider configurations (src/unnamed/part\_005, the provider-configs module)\<close>

text \<open>
  The arguments of a mint call, as \<open>buildArgs\<close> lists them. \<open>BigIntOf s\<close> and
  \<open>NumberOf s\<close> stand for \<open>BigInt(s)\<close> and \<open>Number(s)\<close> of a string parameter.
\<close>

datatype Arg =
  AddressArg address
  | OptAddressArg "address option"
  | BigIntOf string
  | NumberOf string
  | BigIntArg int
  | ProofArg "string list"
  | AllowlistProofArg "string list" int int address
  | BytesArg string

record PriceDiscoveryConfig =
  abis :: "Abi list"
  functionNames :: "string list"
  requiresInstanceId :: "bool option"
  requiresAmountParam :: "bool option"

record MintConfig =
  abi :: Abi
  functionName :: string
  buildArgs :: "MintParams \<Rightarrow> Arg list"
  calculateValue :: "int \<Rightarrow> MintParams \<Rightarrow> int"

record ProviderConfig =
  name :: NFTProvider
  extensionAddresses :: "address list option"
  priceDiscovery :: PriceDiscoveryConfig
  mintConfig :: MintConfig
  requiredParams :: "string list"
  supportsERC20 :: bool

text \<open>\<open>params.amount || 1\<close>, \<open>s || "0"\<close>, \<open>xs || []\<close>, \<open>a || b\<close> on addresses.\<close>

definition amount_or_1 :: "MintParams \<Rightarrow> int" where
  "amount_or_1 params = (case amount params of None \<Rightarrow> 1 | Some n \<Rightarrow> if n \<noteq> 0 then n else 1)"

definition str_or :: "string option \<Rightarrow> string \<Rightarrow> string" where
  "str_or s d = (case s of None \<Rightarrow> d | Some t \<Rightarrow> if t \<noteq> [] then t else d)"

definition list_or_empty :: "'a list option \<Rightarrow> 'a list" where
  "list_or_empty xs = (case xs of None \<Rightarrow> [] | Some ys \<Rightarrow> ys)"

definition per_amount :: "int \<Rightarrow> MintParams \<Rightarrow> int" where
  "per_amount price params = price * amount_or_1 params"

definition thirdweb_allowlistProof :: "MintParams \<Rightarrow> Arg" where
  "thirdweb_allowlistProof params =
     AllowlistProofArg (list_or_empty (merkleProof params)) maxUint256 maxUint256 ZERO_ADDRESS"

definition provider_key :: "NFTProvider \<Rightarrow> string" where
  "provider_key p =
     (case p of
        Manifold \<Rightarrow> ''manifold'' | Opensea \<Rightarrow> ''opensea'' | Zora \<Rightarrow> ''zora''
      | Generic \<Rightarrow> ''generic'' | Nfts2me \<Rightarrow> ''nfts2me'' | Thirdweb \<Rightarrow> ''thirdweb'')"

definition manifold_config :: ProviderConfig where
  "manifold_config =
     \<lparr> name = Manifold,
       extensionAddresses = Some [manifoldExtension],
       priceDiscovery =
         \<lparr> abis = [MANIFOLD_EXTENSION_ABI], functionNames = [''MINT_FEE''],
           requiresInstanceId = Some True, requiresAmountParam = None \<rparr>,
       mintConfig =
         \<lparr> abi = MANIFOLD_EXTENSION_ABI, functionName = ''mint'',
           buildArgs = (\<lambda>params.
             [AddressArg (contractAddress params),
              BigIntOf (str_or (instanceId params) ''0''),
              NumberOf (str_or (tokenId params) ''0''),
              ProofArg (list_or_empty (merkleProof params)),
              OptAddressArg (recipient params)]),
           calculateValue = (\<lambda>mintFee params. mintFee) \<rparr>,
       requiredParams = [''contractAddress'', ''chainId''],
       supportsERC20 = True \<rparr>"

definition opensea_config :: ProviderConfig where
  "opensea_config =
     \<lparr> name = Opensea,
       extensionAddresses = None,
       priceDiscovery =
         \<lparr> abis = [PRICE_DISCOVERY_ABI],
           functionNames = [''mintPrice'', ''price'', ''publicMintPrice''],
           requiresInstanceId = None, requiresAmountParam = None \<rparr>,
       mintConfig =
         \<lparr> abi = MINT_ABI, functionName = ''mint'',
           buildArgs = (\<lambda>params. [BigIntArg (amount_or_1 params)]),
           calculateValue = per_amount \<rparr>,
       requiredParams = [''contractAddress'', ''chainId''],
       supportsERC20 = False \<rparr>"

definition zora_config :: ProviderConfig where
  "zora_config =
     \<lparr> name = Zora,
       extensionAddresses = None,
       priceDiscovery =
         \<lparr> abis = [PRICE_DISCOVERY_ABI], functionNames = [''mintPrice'', ''price''],
           requiresInstanceId = None, requiresAmountParam = None \<rparr>,
       mintConfig =
         \<lparr> abi = MINT_ABI, functionName = ''mint'',
           buildArgs = (\<lambda>params.
             [OptAddressArg (recipient params), BigIntArg (amount_or_1 params)]),
           calculateValue = per_amount \<rparr>,
       requiredParams = [''contractAddress'', ''chainId''],
       supportsERC20 = False \<rparr>"

definition generic_config :: ProviderConfig where
  "generic_config =
     \<lparr> name = Generic,
       extensionAddresses = None,
       priceDiscovery =
         \<lparr> abis = [PRICE_DISCOVERY_ABI],
           functionNames = [''mintPrice'', ''price'', ''MINT_PRICE'', ''getMintPrice''],
           requiresInstanceId = None, requiresAmountParam = None \<rparr>,
       mintConfig =
         \<lparr> abi = MINT_ABI, functionName = ''mint'',
           buildArgs = (\<lambda>params. [BigIntArg (amount_or_1 params)]),
           calculateValue = per_amount \<rparr>,
       requiredParams = [''contractAddress'', ''chainId''],
       supportsERC20 = False \<rparr>"

definition nfts2me_config :: ProviderConfig where
  "nfts2me_config =
     \<lparr> name = Nfts2me,
       extensionAddresses = None,
       priceDiscovery =
         \<lparr> abis = [NFTS2ME_MINTFEE_ABI], functionNames = [''mintFee''],
           requiresInstanceId = None, requiresAmountParam = Some True \<rparr>,
       mintConfig =
         \<lparr> abi = NFTS2ME_MINT_ABI, functionName = ''mint'',
           buildArgs = (\<lambda>params. [BigIntArg (amount_or_1 params)]),
           calculateValue = per_amount \<rparr>,
       requiredParams = [''contractAddress'', ''chainId''],
       supportsERC20 = False \<rparr>"

definition thirdweb_config :: ProviderConfig where
  "thirdweb_config =
     \<lparr> name = Thirdweb,
       extensionAddresses = None,
       priceDiscovery =
         \<lparr> abis = [THIRDWEB_OPENEDITONERC721_ABI],
           functionNames = [''claimCondition'', ''getClaimConditionById''],
           requiresInstanceId = Some False, requiresAmountParam = None \<rparr>,
       mintConfig =
         \<lparr> abi = THIRDWEB_OPENEDITONERC721_ABI, functionName = ''claim'',
           buildArgs = (\<lambda>params.
             [AddressArg (str_or (recipient params) (contractAddress params)),
              BigIntArg (amount_or_1 params),
              AddressArg THIRDWEB_NATIVE_TOKEN,
              BigIntArg 0,
              thirdweb_allowlistProof params,
              BytesArg ''0x'']),
           calculateValue = per_amount \<rparr>,
       requiredParams = [''contractAddress'', ''chainId''],
       supportsERC20 = True \<rparr>"

text \<open>\<open>PROVIDER_CONFIGS\<close> is a table keyed by the provider's name.\<close>

definition PROVIDER_CONFIGS :: "string \<rightharpoonup> ProviderConfig" where
  "PROVIDER_CONFIGS =
     map_of
       [(''manifold'', manifold_config),
        (''opensea'', opensea_config),
        (''zora'', zora_config),
        (''generic'', generic_config),
        (''nfts2me'', nfts2me_config),
        (''thirdweb'', thirdweb_config)]"

definition getManifoldABI :: "NFTContractInfo option \<Rightarrow> Abi" where
  "getManifoldABI contractInfo =
     (case contractInfo of
        None \<Rightarrow> MANIFOLD_ERC721_EXTENSION_ABI
      | Some ci \<Rightarrow>
          if isERC721 ci then MANIFOLD_ERC721_EXTENSION_ABI
          else if isERC1155 ci then MANIFOLD_ERC1155_EXTENSION_ABI
          else MANIFOLD_ERC721_EXTENSION_ABI)"

definition getProviderConfig :: "string \<Rightarrow> NFTContractInfo option \<Rightarrow> ProviderConfig" where
  "getProviderConfig provider_name contractInfo =
     (let baseConfig =
            (case PROVIDER_CONFIGS provider_name of
               Some c \<Rightarrow> c
             | None \<Rightarrow> generic_config)
      in
      if provider_name = ''manifold'' then
        (let manifoldABI = getManifoldABI contractInfo in
         baseConfig
           \<lparr> priceDiscovery := (priceDiscovery baseConfig)\<lparr> abis := [manifoldABI] \<rparr>,
             mintConfig := (mintConfig baseConfig)\<lparr> abi := manifoldABI \<rparr> \<rparr>)
      else
        (case (if provider_name = ''thirdweb''
               then (case contractInfo of None \<Rightarrow> None | Some ci \<Rightarrow> claimCondition ci)
               else None) of
           Some cond \<Rightarrow>
             baseConfig
               \<lparr> mintConfig := (mintConfig baseConfig)
                   \<lparr> buildArgs := (\<lambda>params.
                        [AddressArg (str_or (recipient params) (contractAddress params)),
                         BigIntArg (amount_or_1 params),
                         AddressArg (if currency cond \<noteq> [] then currency cond
                                     else THIRDWEB_NATIVE_TOKEN),
                         BigIntArg (or_zero (Some (pricePerToken cond))),
                         thirdweb_allowlistProof params,
                         BytesArg ''0x'']),
                     calculateValue := (\<lambda>price params.
                        if currency cond = [] \<or>
                           toLowerCase (currency cond) = toLowerCase THIRDWEB_NATIVE_TOKEN
                        then price * amount_or_1 params
                        else 0) \<rparr> \<rparr>
         | None \<Rightarrow> baseConfig))"

section \<open>The chain as the modelled code reads it\<close>

text \<open>
  \<open>client.readContract({address, abi, functionName, args})\<close> either resolves to the
  decoded return value or rejects. A \<open>ContractView\<close> gives, for the contract at one
  address, the outcome of every read the modelled functions perform on it; a
  \<open>Client\<close> maps an address to its view, and \<open>getClientForChain\<close> maps a chain id to
  a client. Within one run the same read gives the same outcome.

  A claim as the Manifold extension returns it: the properties the price engine
  checks for \<open>undefined\<close> are optional. \<open>getClaim\<close> resolves to the claim object,
  \<open>getClaimForToken\<close> to the two-element array \<open>[instanceId, claim]\<close>.
\<close>

record RawClaim =
  rc_cost :: "int option"
  rc_merkleRoot :: string
  rc_erc20 :: "address option"
  rc_startDate :: "int option"
  rc_endDate :: "int option"
  rc_walletMax :: "int option"

record SharedMetadata =
  sm_name :: string
  sm_description :: string
  sm_image :: string
  sm_animationUrl :: string

record ContractView =
  read_supportsInterface :: "string \<Rightarrow> bool result"
  read_getExtensions :: "address list result"
  read_n2mVersion :: "int result"
  read_claimCondition :: "int list result"
  read_sharedMetadata :: "SharedMetadata result"
  read_tokenURI :: "int \<Rightarrow> string result"
  read_uri :: "int \<Rightarrow> string result"
  read_contractURI :: "string result"
  read_baseURI :: "string result"
  read_ext_tokenURI :: "address \<Rightarrow> int \<Rightarrow> string result"
  read_MINT_FEE :: "Abi \<Rightarrow> int result"
  read_getClaim :: "Abi \<Rightarrow> address \<Rightarrow> int \<Rightarrow> RawClaim result"
  read_getClaimForToken :: "Abi \<Rightarrow> address \<Rightarrow> int \<Rightarrow> (int \<times> RawClaim) result"
  read_symbol :: "string result"
  read_decimals :: "int result"
  read_allowance :: "address \<Rightarrow> address \<Rightarrow> int result"
  read_balanceOf :: "address \<Rightarrow> int result"

type_synonym Client = "address \<Rightarrow> ContractView"

section \<open>Provider detection (src/src/lib/provider-detector.ts)\<close>

definition basic_info :: "NFTProvider \<Rightarrow> bool \<Rightarrow> bool \<Rightarrow> NFTContractInfo" where
  "basic_info p is1155 is721 =
     \<lparr> provider = p, isERC1155 = is1155, isERC721 = is721,
       extensionAddress = None, hasManifoldExtension = None, ci_mintPrice = None,
       erc20Token = None, erc20Symbol = None, erc20Decimals = None,
       claim = None, claimCondition = None \<rparr>"

definition manifold_info :: "bool \<Rightarrow> bool \<Rightarrow> address \<Rightarrow> NFTContractInfo" where
  "manifold_info is1155 is721 ext =
     (basic_info Manifold is1155 is721)
       \<lparr> extensionAddress := Some ext, hasManifoldExtension := Some True \<rparr>"

text \<open>\<open>config.extensionAddresses?.[0]\<close> and \<open>config.extensionAddresses?.includes(ext)\<close>.\<close>

definition first_extension :: "ProviderConfig \<Rightarrow> address option" where
  "first_extension config =
     (case extensionAddresses config of
        None \<Rightarrow> None
      | Some [] \<Rightarrow> None
      | Some (a # as) \<Rightarrow> Some a)"

definition extension_listed :: "ProviderConfig \<Rightarrow> address \<Rightarrow> bool" where
  "extension_listed config ext =
     (case extensionAddresses config of None \<Rightarrow> False | Some as \<Rightarrow> ext \<in> set as)"

text \<open>
  The body of the \<open>try\<close> block of \<open>detectNFTProvider\<close>: the three probes of the first
  batch carry their own \<open>.catch\<close>, the later probes sit in \<open>try\<close> blocks of their own.
  A version number that was read is a decoded \<open>uint256\<close> and so is never \<open>undefined\<close>:
  the read succeeding is what classifies the contract as \<open>nfts2me\<close>. The outcome of
  the \<open>sharedMetadata\<close> read changes nothing.
\<close>

definition detect_probes :: "ContractView \<Rightarrow> NFTContractInfo result" where
  "detect_probes cv =
     (let is721 = catch_default (read_supportsInterface cv INTERFACE_ID_ERC721) False;
          is1155 = catch_default (read_supportsInterface cv INTERFACE_ID_ERC1155) False;
          extensions = catch_null (read_getExtensions cv)
      in
      case (case extensions of
              None \<Rightarrow> None
            | Some [] \<Rightarrow> None
            | Some (e # es) \<Rightarrow>
                (let knownManifoldExtension = find (extension_listed manifold_config) (e # es)
                 in if truthy_str knownManifoldExtension \<or> length (e # es) > 0
                    then Some (manifold_info is1155 is721 (str_or knownManifoldExtension e))
                    else None)) of
        Some info \<Rightarrow> Inr info
      | None \<Rightarrow>
          (case read_n2mVersion cv of
             Inr version \<Rightarrow> Inr (basic_info Nfts2me is1155 is721)
           | Inl err \<Rightarrow>
               (case (case read_claimCondition cv of
                        Inr claimConditionResult \<Rightarrow>
                          if length claimConditionResult = 2
                          then (case read_sharedMetadata cv of
                                  Inr m \<Rightarrow> Some (basic_info Thirdweb is1155 is721)
                                | Inl err' \<Rightarrow> Some (basic_info Thirdweb is1155 is721))
                          else None
                      | Inl err' \<Rightarrow> None) of
                  Some info \<Rightarrow> Inr info
                | None \<Rightarrow> Inr (basic_info Generic is1155 is721))))"

text \<open>
  \<open>detectNFTProvider\<close>. The client is built from the chain id before the \<open>try\<close>
  block; building it performs no read, and \<open>getClientForChain\<close> is taken to return a
  client for every chain id. An explicit provider is trusted without any probe. The
  \<open>catch\<close> of the outer \<open>try\<close> block turns whatever the probing throws into the
  \<open>generic\<close> provider.
\<close>

definition detectNFTProvider :: "(int \<Rightarrow> Client) \<Rightarrow> MintParams \<Rightarrow> NFTContractInfo result" where
  "detectNFTProvider getClientForChain params =
     (let client = getClientForChain (chainId params) in
      case mp_provider params of
        Some specifiedProvider \<Rightarrow>
          (case PROVIDER_CONFIGS (provider_key specifiedProvider) of
             None \<Rightarrow>
               if specifiedProvider = Manifold
               then Inl (TypeError ''Cannot read properties of undefined'')
               else Inr (basic_info specifiedProvider False False)
           | Some config \<Rightarrow>
               if specifiedProvider = Manifold \<and> truthy_str (first_extension config)
               then Inr (manifold_info True False (str_or (first_extension config) []))
               else Inr (basic_info specifiedProvider False False))
      | None \<Rightarrow>
          (case detect_probes (client (contractAddress params)) of
             Inr info \<Rightarrow> Inr info
           | Inl err \<Rightarrow> Inr (basic_info Generic False False)))"

section \<open>Price discovery, the Manifold branch (src/src/lib/price-optimizer.ts)\<close>

record QuoteErc20 =
  q_address :: address
  q_symbol :: string
  q_decimals :: int
  q_allowance :: "int option"
  q_balance :: "int option"

record Quote =
  q_mintPrice :: "int option"
  q_erc20Details :: "QuoteErc20 option"
  q_totalCost :: int
  q_claim :: "Claim option"

definition callManifoldWithFallback ::
    "(Abi \<Rightarrow> 'a result) \<Rightarrow> NFTContractInfo \<Rightarrow> 'a result" where
  "callManifoldWithFallback readWith contractInfo =
     (let primaryABI = (if isERC721 contractInfo then MANIFOLD_ERC721_EXTENSION_ABI
                        else MANIFOLD_ERC1155_EXTENSION_ABI);
          fallbackABI = (if isERC721 contractInfo then MANIFOLD_ERC1155_EXTENSION_ABI
                         else MANIFOLD_ERC721_EXTENSION_ABI)
      in case readWith primaryABI of
           Inr res \<Rightarrow> Inr res
         | Inl primaryError \<Rightarrow>
             (case readWith fallbackABI of
                Inr res \<Rightarrow> Inr res
              | Inl fallbackError \<Rightarrow> Inl fallbackError))"

text \<open>The condition of the first branch of \<open>fetchPriceData\<close>.\<close>

definition manifold_branch :: "NFTContractInfo \<Rightarrow> bool" where
  "manifold_branch contractInfo =
     (provider contractInfo = Manifold \<and> truthy_str (extensionAddress contractInfo))"

text \<open>
  The quote returned without a usable claim: the mint fee alone
  (\<open>{ mintPrice: mintFee || 0n, totalCost: mintFee || 0n }\<close>).
\<close>

definition fee_only :: "int option \<Rightarrow> Quote" where
  "fee_only mintFee =
     \<lparr> q_mintPrice = Some (or_zero mintFee), q_erc20Details = None,
       q_totalCost = or_zero mintFee, q_claim = None \<rparr>"

text \<open>
  The structural checks on a fetched claim. \<open>missingProps\<close> is the list the code
  computes; \<open>stored_claim\<close> is the record written to \<open>contractInfo.claim\<close>, which exists
  when no required property is missing. (\<open>cost\<close> is a decoded \<open>uint256\<close>, so the check
  of its type cannot fail and has no counterpart here.)
\<close>

definition missingProps :: "RawClaim \<Rightarrow> string list" where
  "missingProps c =
     map fst (filter (\<lambda>(prop, v_undefined). v_undefined)
       [(''cost'', rc_cost c = None),
        (''erc20'', rc_erc20 c = None),
        (''startDate'', rc_startDate c = None),
        (''endDate'', rc_endDate c = None),
        (''walletMax'', rc_walletMax c = None)])"

definition stored_claim :: "RawClaim \<Rightarrow> Claim option" where
  "stored_claim c =
     (case (rc_cost c, rc_erc20 c, rc_startDate c, rc_endDate c, rc_walletMax c) of
        (Some cost_v, Some erc20_v, Some start_v, Some end_v, Some max_v) \<Rightarrow>
          Some \<lparr> cost = cost_v, merkleRoot = rc_merkleRoot c, erc20 = erc20_v,
                 startDate = start_v, endDate = end_v, walletMax = max_v \<rparr>
      | _ \<Rightarrow> None)"

text \<open>
  The batch of ERC-20 reads: \<open>symbol\<close> and \<open>decimals\<close> reject the whole batch when they
  fail, \<open>allowance\<close> and \<open>balanceOf\<close> are read only with a recipient and fall back to
  zero on failure. Invalid decimals throw.
\<close>

definition erc20_batch ::
    "Client \<Rightarrow> address \<Rightarrow> address option \<Rightarrow> address \<Rightarrow> QuoteErc20 result" where
  "erc20_batch client token recipient_opt spender =
     and_then (read_symbol (client token)) (\<lambda>sym.
     and_then (read_decimals (client token)) (\<lambda>dec.
       (let allowance_v =
              (case recipient_opt of
                 None \<Rightarrow> None
               | Some r \<Rightarrow>
                   if r \<noteq> []
                   then Some (catch_default (read_allowance (client token) r spender) 0)
                   else None);
            balance_v =
              (case recipient_opt of
                 None \<Rightarrow> None
               | Some r \<Rightarrow>
                   if r \<noteq> []
                   then Some (catch_default (read_balanceOf (client token) r) 0)
                   else None)
        in if dec < 0 \<or> dec > 255
           then Inl (JsError ''Invalid ERC20 decimals'')
           else Inr \<lparr> q_address = token, q_symbol = sym, q_decimals = dec,
                      q_allowance = allowance_v, q_balance = balance_v \<rparr>)))"

text \<open>
  The part of the \<open>try\<close> block after the two promises have settled, for the claim (if
  any) and the parameters as they then are. The state the function mutates
  (\<open>params.instanceId\<close>, \<open>contractInfo.claim\<close>) is returned next to the outcome, so that
  a mutation made before a throw is kept.
\<close>

definition with_claim ::
    "Client \<Rightarrow> MintParams \<Rightarrow> NFTContractInfo \<Rightarrow> int option \<Rightarrow> RawClaim option
       \<Rightarrow> (MintParams \<times> NFTContractInfo) \<times> Quote result" where
  "with_claim client params contractInfo mintFee claim_opt =
     (case claim_opt of
        None \<Rightarrow>
          ((params, contractInfo),
           Inr \<lparr> q_mintPrice = Some (or_zero mintFee), q_erc20Details = None,
                  q_totalCost = or_zero mintFee, q_claim = None \<rparr>)
      | Some c \<Rightarrow>
          (case stored_claim c of
             None \<Rightarrow> ((params, contractInfo), Inr (fee_only mintFee))
           | Some stored \<Rightarrow>
               (let contractInfo' = contractInfo\<lparr> claim := Some stored \<rparr> in
                if erc20 stored \<noteq> [] \<and> erc20 stored \<noteq> ZERO_ADDRESS
                then
                  (case erc20_batch client (erc20 stored) (recipient params)
                          (str_or (extensionAddress contractInfo') (contractAddress params)) of
                     Inl err \<Rightarrow> ((params, contractInfo'), Inl err)
                   | Inr details \<Rightarrow>
                       ((params, contractInfo'),
                        Inr \<lparr> q_mintPrice = Some (or_zero mintFee),
                               q_erc20Details = Some details,
                               q_totalCost = or_zero mintFee,
                               q_claim = Some stored \<rparr>))
                else
                  ((params, contractInfo'),
                   Inr \<lparr> q_mintPrice = Some (or_zero mintFee),
                          q_erc20Details = None,
                          q_totalCost = or_zero mintFee + or_zero (Some (cost stored)),
                          q_claim = Some stored \<rparr>))))"

text \<open>
  The claim request. A claim is requested by instance id (\<open>getClaim\<close>, resolving to
  the claim object) or else by token id (\<open>getClaimForToken\<close>, resolving to the array
  \<open>[instanceId, claim]\<close>, which is unpacked and whose instance id is written back to
  \<open>params\<close>); \<open>BigInt\<close> of the identifier may throw. A failed read, or no identifier,
  leaves \<open>null\<close>. The result is the parameters as they then are and the claim.
\<close>

definition fetch_claim ::
    "Client \<Rightarrow> MintParams \<Rightarrow> NFTContractInfo \<Rightarrow> (MintParams \<times> RawClaim option) result" where
  "fetch_claim client params contractInfo =
     (let ext = str_or (extensionAddress contractInfo) [] in
      if truthy_str (instanceId params) then
        and_then (BigInt (str_or (instanceId params) [])) (\<lambda>i.
          Inr (params,
               catch_null (callManifoldWithFallback
                 (\<lambda>a. read_getClaim (client ext) a (contractAddress params) i) contractInfo)))
      else if truthy_str (tokenId params) then
        and_then (BigInt (str_or (tokenId params) [])) (\<lambda>t.
          (case catch_null (callManifoldWithFallback
                  (\<lambda>a. read_getClaimForToken (client ext) a (contractAddress params) t)
                  contractInfo) of
             None \<Rightarrow> Inr (params, None)
           | Some (extractedInstanceId, c) \<Rightarrow>
               Inr (params\<lparr> instanceId := Some (bigint_toString extractedInstanceId) \<rparr>,
                    Some c)))
      else Inr (params, None))"

text \<open>
  The \<open>try\<close> block. Since a claim is only ever requested under one of the two
  identifiers, the test \<open>params.instanceId || params.tokenId\<close> guarding the structural
  checks holds whenever there is a claim.
\<close>

definition manifold_try ::
    "Client \<Rightarrow> MintParams \<Rightarrow> NFTContractInfo
       \<Rightarrow> (MintParams \<times> NFTContractInfo) \<times> Quote result" where
  "manifold_try client params contractInfo =
     (let ext = str_or (extensionAddress contractInfo) [];
          mintFee = catch_null (callManifoldWithFallback (read_MINT_FEE (client ext)) contractInfo)
      in
      case fetch_claim client params contractInfo of
        Inl err \<Rightarrow> ((params, contractInfo), Inl err)
      | Inr (params', claim_opt) \<Rightarrow> with_claim client params' contractInfo mintFee claim_opt)"

definition DEFAULT_MANIFOLD_FEE :: int where
  "DEFAULT_MANIFOLD_FEE = 500000000000000"

text \<open>
  The first branch of \<open>fetchPriceData\<close>, taken under \<open>manifold_branch\<close>: the \<open>try\<close>
  block, then on a throw the fee alone, then the default fee. It returns the quote
  together with the parameters and the contract info as the call leaves them.
\<close>

definition fetchPriceData_manifold ::
    "Client \<Rightarrow> MintParams \<Rightarrow> NFTContractInfo \<Rightarrow> Quote \<times> MintParams \<times> NFTContractInfo" where
  "fetchPriceData_manifold client params contractInfo =
     (case manifold_try client params contractInfo of
        ((params', contractInfo'), Inr quote) \<Rightarrow> (quote, params', contractInfo')
      | ((params', contractInfo'), Inl err) \<Rightarrow>
          (case callManifoldWithFallback
                  (read_MINT_FEE (client (str_or (extensionAddress contractInfo') [])))
                  contractInfo' of
             Inr mintFee \<Rightarrow>
               (\<lparr> q_mintPrice = Some mintFee, q_erc20Details = None,
                  q_totalCost = mintFee, q_claim = None \<rparr>, params', contractInfo')
           | Inl fallbackErr \<Rightarrow>
               (\<lparr> q_mintPrice = None, q_erc20Details = None,
                  q_totalCost = DEFAULT_MANIFOLD_FEE, q_claim = None \<rparr>,
                params', contractInfo')))"

section \<open>Metadata resolver (src/unnamed/part\_005, the nft-metadata module)\<close>

datatype ProviderHint = Hint_manifold | Hint_thirdweb | Hint_standard | Hint_erc1155

record ManifoldDetectionResult =
  isManifold :: bool
  md_extensionAddress :: "address option"
  md_extensions :: "address list option"

definition not_manifold :: ManifoldDetectionResult where
  "not_manifold = \<lparr> isManifold = False, md_extensionAddress = None, md_extensions = None \<rparr>"

definition detectManifoldContract :: "Client \<Rightarrow> address \<Rightarrow> ManifoldDetectionResult" where
  "detectManifoldContract client contractAddr =
     (case and_then (getAddress contractAddr) (\<lambda>a. read_getExtensions (client a)) of
        Inl err \<Rightarrow> not_manifold
      | Inr [] \<Rightarrow> not_manifold
      | Inr (e # es) \<Rightarrow>
          (let knownExtension =
                 find (\<lambda>ext. toLowerCase ext = toLowerCase manifoldExtension) (e # es)
           in \<lparr> isManifold = True,
                md_extensionAddress = Some (str_or knownExtension e),
                md_extensions = Some (e # es) \<rparr>))"

definition getManifoldTokenURI ::
    "Client \<Rightarrow> address \<Rightarrow> string \<Rightarrow> address option \<Rightarrow> string result" where
  "getManifoldTokenURI client contractAddr tokenIdStr extensionAddr =
     (let extension = str_or extensionAddr manifoldExtension in
      and_then (getAddress extension) (\<lambda>e.
      and_then (getAddress contractAddr) (\<lambda>c.
      and_then (BigInt tokenIdStr) (\<lambda>t.
        read_ext_tokenURI (client e) c t))))"

text \<open>
  The metadata document synthesised from \<open>sharedMetadata\<close>, and its data URI. The
  encoder \<open>btoa(JSON.stringify(doc))\<close> is a browser built-in and a parameter here;
  \<open>btoa\<close> throws on a character outside Latin-1.
\<close>

record MetadataJson =
  mj_name :: string
  mj_description :: string
  mj_image :: string
  mj_animation_url :: "string option"

definition data_uri :: "(MetadataJson \<Rightarrow> string result) \<Rightarrow> MetadataJson \<Rightarrow> string result" where
  "data_uri btoa_json doc =
     and_then (btoa_json doc) (\<lambda>b. Inr (''data:application/json;base64,'' @ b))"

definition shared_doc :: "SharedMetadata \<Rightarrow> string \<Rightarrow> MetadataJson" where
  "shared_doc metadata default_name =
     \<lparr> mj_name = (if sm_name metadata \<noteq> [] then sm_name metadata else default_name),
       mj_description = sm_description metadata,
       mj_image = sm_image metadata,
       mj_animation_url =
         (if sm_animationUrl metadata \<noteq> [] then Some (sm_animationUrl metadata) else None) \<rparr>"

text \<open>
  The \<open>switch\<close> on the provider hint, inside its \<open>try\<close>: \<open>Inr (Some url)\<close> is a
  \<open>return url\<close>, \<open>Inr None\<close> a \<open>break\<close> (or a hint without a case), \<open>Inl\<close> a throw.
  The replacement string \<open>tokenId.padStart(64, "0")\<close> holds no \<open>$\<close>, the token id
  having passed \<open>BigInt\<close>, so \<open>replace\<close> inserts it as it is.
\<close>

definition hint_attempt ::
    "(MetadataJson \<Rightarrow> string result) \<Rightarrow> Client \<Rightarrow> address \<Rightarrow> string \<Rightarrow> int
       \<Rightarrow> ProviderHint \<Rightarrow> string option result" where
  "hint_attempt btoa_json client addr tokenIdStr tokenIdBigInt hint =
     (case hint of
        Hint_manifold \<Rightarrow>
          (let manifoldInfo = detectManifoldContract client addr in
           if isManifold manifoldInfo \<and> truthy_str (md_extensionAddress manifoldInfo)
           then and_then
                  (getManifoldTokenURI client addr tokenIdStr (md_extensionAddress manifoldInfo))
                  (\<lambda>u. Inr (Some u))
           else Inr None)
      | Hint_erc1155 \<Rightarrow>
          and_then (read_uri (client addr) tokenIdBigInt) (\<lambda>u.
            Inr (Some (replace_first u ''{id}'' (padStart_zero 64 tokenIdStr))))
      | Hint_thirdweb \<Rightarrow>
          and_then (read_sharedMetadata (client addr)) (\<lambda>metadata.
            if sm_image metadata \<noteq> []
            then and_then (data_uri btoa_json (shared_doc metadata []))
                   (\<lambda>u. Inr (Some u))
            else Inr None)
      | Hint_standard \<Rightarrow> Inr None)"

text \<open>The six fallback methods, in order, each with the outcome of running it.\<close>

definition fallbackMethods ::
    "(MetadataJson \<Rightarrow> string result) \<Rightarrow> Client \<Rightarrow> address \<Rightarrow> string \<Rightarrow> int
       \<Rightarrow> string result list" where
  "fallbackMethods btoa_json client addr tokenIdStr tokenIdBigInt =
     [ read_tokenURI (client addr) tokenIdBigInt,
       and_then (read_uri (client addr) tokenIdBigInt) (\<lambda>u.
         Inr (replace_first u ''{id}'' (padStart_zero 64 tokenIdStr))),
       (let manifoldInfo = detectManifoldContract client addr in
        if isManifold manifoldInfo \<and> truthy_str (md_extensionAddress manifoldInfo)
        then getManifoldTokenURI client addr tokenIdStr (md_extensionAddress manifoldInfo)
        else Inl (JsError ''Not a Manifold contract'')),
       read_contractURI (client addr),
       and_then (read_sharedMetadata (client addr)) (\<lambda>metadata.
         if sm_image metadata \<noteq> []
         then data_uri btoa_json (shared_doc metadata (''Token #'' @ tokenIdStr))
         else Inl (JsError ''No shared metadata found'')),
       and_then (read_baseURI (client addr)) (\<lambda>baseURI.
         if baseURI \<noteq> []
         then Inr (baseURI @ (if endsWith baseURI ''/'' then [] else ''/'') @ tokenIdStr)
         else Inl (JsError ''No baseURI found'')) ]"

text \<open>The loop over the methods: the first non-empty string, else the empty string.\<close>

fun first_nonempty :: "string result list \<Rightarrow> string" where
  "first_nonempty [] = []"
| "first_nonempty (Inr s # rest) = (if s \<noteq> [] then s else first_nonempty rest)"
| "first_nonempty (Inl err # rest) = first_nonempty rest"

definition getTokenMetadataURL ::
    "(MetadataJson \<Rightarrow> string result) \<Rightarrow> Client \<Rightarrow> address \<Rightarrow> string
       \<Rightarrow> ProviderHint option \<Rightarrow> string result" where
  "getTokenMetadataURL btoa_json client contractAddr tokenIdStr providerHint =
     and_then (getAddress contractAddr) (\<lambda>addr.
     and_then (BigInt tokenIdStr) (\<lambda>tokenIdBigInt.
       (case (case providerHint of
                None \<Rightarrow> None
              | Some hint \<Rightarrow>
                  (case hint_attempt btoa_json client addr tokenIdStr tokenIdBigInt hint of
                     Inr (Some url) \<Rightarrow> Some url
                   | Inr None \<Rightarrow> None
                   | Inl err \<Rightarrow> None)) of
          Some url \<Rightarrow> Inr url
        | None \<Rightarrow>
            Inr (first_nonempty
                   (fallbackMethods btoa_json client addr tokenIdStr tokenIdBigInt)))))"

section \<open>The mint state machine (src/src/lib/mint-reducer.ts)\<close>

datatype MintStep =
  Initial | Detecting | Sheet | Connecting | Approve | Approving
  | Minting | Waiting | Success | Error | Validation_error

datatype TransactionType = Approval | Mint

record Erc20Details =
  erc20_address :: address
  symbol :: string
  decimals :: int
  allowance :: "int option"
  needsApproval :: "bool option"

record PriceData =
  mintPrice :: "int option"
  totalCost :: int
  erc20Details :: "Erc20Details option"

record MintState =
  step :: MintStep
  contractInfo :: "NFTContractInfo option"
  priceData :: PriceData
  error :: "string option"
  txHash :: "string option"
  txType :: "TransactionType option"
  isLoading :: bool
  validationErrors :: "string list"

definition initialState :: MintState where
  "initialState =
     \<lparr> step = Initial,
       contractInfo = None,
       priceData = \<lparr> mintPrice = None, totalCost = 0, erc20Details = None \<rparr>,
       error = None,
       txHash = None,
       txType = None,
       isLoading = False,
       validationErrors = [] \<rparr>"

record DetectPayload =
  p_contractInfo :: NFTContractInfo
  p_priceData :: PriceData

datatype MintAction =
  DETECT_START
  | DETECT_SUCCESS DetectPayload
  | DETECT_ERROR string
  | VALIDATION_ERROR "string list"
  | APPROVE_REQUIRED
  | APPROVE_START
  | APPROVE_TX_SUBMITTED string
  | APPROVE_SUCCESS
  | CONNECT_START
  | CONNECT_SUCCESS
  | MINT_START
  | MINT_TX_SUBMITTED string
  | TX_SUCCESS string
  | TX_ERROR string
  | RESET
  | UPDATE_ALLOWANCE int

text \<open>
  The value of the \<open>&&\<close> chain computed under \<open>DETECT_SUCCESS\<close>. With
  \<open>erc20Details\<close> present the chain yields \<open>undefined\<close> when the contract info carries
  no claim, \<open>false\<close> when the allowance is \<open>undefined\<close>, and the comparison otherwise;
  without \<open>erc20Details\<close> it is \<open>undefined\<close>.
\<close>

definition detect_needsApproval :: "DetectPayload \<Rightarrow> bool option" where
  "detect_needsApproval p =
     (case erc20Details (p_priceData p) of
        None \<Rightarrow> None
      | Some e \<Rightarrow>
          (case claim (p_contractInfo p) of
             None \<Rightarrow> None
           | Some c \<Rightarrow>
               (case allowance e of
                  None \<Rightarrow> Some False
                | Some a \<Rightarrow> Some (a < cost c))))"

text \<open>JavaScript truthiness of an optional boolean.\<close>

definition truthy_flag :: "bool option \<Rightarrow> bool" where
  "truthy_flag b = (b = Some True)"

fun mintReducer :: "MintState \<Rightarrow> MintAction \<Rightarrow> MintState" where
  "mintReducer state DETECT_START =
     state\<lparr> step := Detecting, isLoading := True, error := None \<rparr>"
| "mintReducer state (DETECT_SUCCESS payload) =
     (let needs = detect_needsApproval payload in
      state\<lparr> step := (if truthy_flag needs then Approve else Sheet),
             contractInfo := Some (p_contractInfo payload),
             priceData := (p_priceData payload)
               \<lparr> erc20Details :=
                   (case erc20Details (p_priceData payload) of
                      Some e \<Rightarrow> Some (e\<lparr> needsApproval := needs \<rparr>)
                    | None \<Rightarrow> None) \<rparr>,
             isLoading := False \<rparr>)"
| "mintReducer state (DETECT_ERROR msg) =
     state\<lparr> step := Error, error := Some msg, isLoading := False \<rparr>"
| "mintReducer state (VALIDATION_ERROR errs) =
     state\<lparr> step := Validation_error, validationErrors := errs, isLoading := False \<rparr>"
| "mintReducer state APPROVE_REQUIRED = state\<lparr> step := Approve \<rparr>"
| "mintReducer state APPROVE_START =
     state\<lparr> step := Approving, isLoading := True, txType := Some Approval \<rparr>"
| "mintReducer state (APPROVE_TX_SUBMITTED h) =
     state\<lparr> step := Waiting, txHash := Some h, txType := Some Approval \<rparr>"
| "mintReducer state APPROVE_SUCCESS =
     state\<lparr> step := Sheet,
            isLoading := False,
            txType := None,
            txHash := None,
            priceData := (priceData state)
              \<lparr> erc20Details :=
                  (case erc20Details (priceData state) of
                     Some e \<Rightarrow>
                       Some (e\<lparr> needsApproval := Some False,
                                allowance :=
                                  Some (or_zero
                                    (case contractInfo state of
                                       None \<Rightarrow> None
                                     | Some ci \<Rightarrow> map_option cost (claim ci))) \<rparr>)
                   | None \<Rightarrow> None) \<rparr> \<rparr>"
| "mintReducer state CONNECT_START = state\<lparr> step := Connecting \<rparr>"
| "mintReducer state CONNECT_SUCCESS = state\<lparr> step := Sheet \<rparr>"
| "mintReducer state MINT_START =
     state\<lparr> step := Minting, isLoading := True, txType := Some Mint \<rparr>"
| "mintReducer state (MINT_TX_SUBMITTED h) =
     state\<lparr> step := Waiting, txHash := Some h, txType := Some Mint \<rparr>"
| "mintReducer state (TX_SUCCESS h) =
     (if txType state = Some Mint
      then state\<lparr> step := Success, txHash := Some h, isLoading := False, txType := None \<rparr>
      else state)"
| "mintReducer state (TX_ERROR msg) =
     state\<lparr> step := Error, error := Some msg, isLoading := False, txType := None \<rparr>"
| "mintReducer state (UPDATE_ALLOWANCE a) =
     (case erc20Details (priceData state) of
        None \<Rightarrow> state
      | Some e \<Rightarrow>
          (let updatedNeedsApproval =
                 (case (case contractInfo state of None \<Rightarrow> None | Some ci \<Rightarrow> claim ci) of
                    Some c \<Rightarrow> a < cost c
                  | None \<Rightarrow> False)
           in state\<lparr> priceData := (priceData state)
                  \<lparr> erc20Details :=
                      Some (e\<lparr> allowance := Some a,
                               needsApproval := Some updatedNeedsApproval \<rparr>) \<rparr> \<rparr>))"
| "mintReducer state RESET = initialState"

section \<open>Error classifier (src/unnamed/part\_005, the error-parser module)\<close>

datatype ErrorType =
  Insufficient_funds | Wrong_network | User_rejected | Contract_error
  | Allowance_error | Network_error | Unknown

record ParsedError =
  type :: ErrorType
  message :: string
  details :: "string option"
  actionText :: "string option"

text \<open>
  The classifier's argument is of type \<open>unknown\<close>, and its first line reads a text off
  it: \<open>error.message.toLowerCase()\<close> when the value is an \<open>Error\<close>, and
  \<open>String(error).toLowerCase()\<close> otherwise. Neither read is guarded, so four kinds of
  value are told apart: an \<open>Error\<close> whose \<open>message\<close> is a string; an \<open>Error\<close> whose
  \<open>message\<close> is not a string (\<open>undefined\<close>, a number, ...), on which the call of
  \<open>toLowerCase\<close> throws a \<open>TypeError\<close>; any other value that \<open>String\<close> converts, with the
  text it gives; and a value on which \<open>String\<close> throws, with the exception it throws (a
  \<open>TypeError\<close> for \<open>Object.create(null)\<close>, which has no \<open>toString\<close>; whatever a \<open>toString\<close>
  of the value's own throws).

  \<open>String.prototype.toLowerCase\<close> follows the Unicode case mappings. The classifier takes
  it as the parameter \<open>lowerCase\<close>, so that what is proved of the classifier does not
  depend on which characters are lower-cased; the function \<open>toLowerCase\<close> above agrees
  with the built-in on ASCII text and stands for it at concrete ASCII inputs.
\<close>

datatype Thrown =
  ErrorObject string
  | ErrorObject_nonstring_message
  | OtherValue string
  | Unconvertible exn

definition error_text :: "(string \<Rightarrow> string) \<Rightarrow> Thrown \<Rightarrow> string result" where
  "error_text lowerCase e =
     (case e of
        ErrorObject m \<Rightarrow> Inr (lowerCase m)
      | ErrorObject_nonstring_message \<Rightarrow>
          Inl (TypeError ''error.message.toLowerCase is not a function'')
      | OtherValue v \<Rightarrow> Inr (lowerCase v)
      | Unconvertible x \<Rightarrow> Inl x)"

definition revert_details :: "string \<Rightarrow> string" where
  "revert_details errorMessage =
     (if str_includes errorMessage ''sold out'' \<or> str_includes errorMessage ''max supply''
      then ''This NFT is sold out or has reached maximum supply.''
      else if str_includes errorMessage ''not started'' \<or> str_includes errorMessage ''not active''
      then ''Minting hasn't started yet or has ended.''
      else if str_includes errorMessage ''max per wallet'' \<or>
              str_includes errorMessage ''exceeds max''
      then ''You've reached the maximum amount allowed per wallet.''
      else if str_includes errorMessage ''allowlist'' \<or> str_includes errorMessage ''not eligible''
      then ''You're not eligible to mint this NFT. Check if it requires an allowlist.''
      else ''The contract rejected this transaction.'')"

text \<open>The substring tests of the six \<open>if\<close> statements, in the order of the code.\<close>

definition mentions_user_rejected :: "string \<Rightarrow> bool" where
  "mentions_user_rejected errorMessage =
     (str_includes errorMessage ''user rejected'' \<or> str_includes errorMessage ''user denied'')"

definition mentions_insufficient_funds :: "string \<Rightarrow> bool" where
  "mentions_insufficient_funds errorMessage =
     (str_includes errorMessage ''insufficient funds'' \<or>
      str_includes errorMessage ''insufficient balance'' \<or>
      str_includes errorMessage ''not enough'' \<or>
      str_includes errorMessage ''exceeds balance'')"

definition mentions_wrong_network :: "string \<Rightarrow> bool" where
  "mentions_wrong_network errorMessage =
     (str_includes errorMessage ''network'' \<or>
      str_includes errorMessage ''chain'' \<or>
      str_includes errorMessage ''chainid'')"

definition mentions_revert :: "string \<Rightarrow> bool" where
  "mentions_revert errorMessage =
     (str_includes errorMessage ''revert'' \<or>
      str_includes errorMessage ''execution reverted'' \<or>
      str_includes errorMessage ''contract error'')"

definition mentions_allowance :: "string \<Rightarrow> bool" where
  "mentions_allowance errorMessage =
     (str_includes errorMessage ''allowance'' \<or> str_includes errorMessage ''approve'')"

definition mentions_rpc :: "string \<Rightarrow> bool" where
  "mentions_rpc errorMessage =
     (str_includes errorMessage ''timeout'' \<or>
      str_includes errorMessage ''network'' \<or>
      str_includes errorMessage ''fetch'' \<or>
      str_includes errorMessage ''rpc'')"

definition parseError ::
  "(string \<Rightarrow> string) \<Rightarrow> Thrown \<Rightarrow> TransactionType \<Rightarrow> ParsedError result" where
  "parseError lowerCase err ctx =
     and_then (error_text lowerCase err) (\<lambda>errorMessage.
     Inr (if mentions_user_rejected errorMessage
          then \<lparr> type = User_rejected, message = ''Transaction cancelled'',
                 details = Some ''You rejected the transaction in your wallet'',
                 actionText = Some ''Try again'' \<rparr>
          else if mentions_insufficient_funds errorMessage
          then \<lparr> type = Insufficient_funds, message = ''Insufficient funds'',
                 details = Some (if ctx = Approval
                                 then ''You don't have enough tokens to approve this amount''
                                 else ''You don't have enough funds to complete this transaction. Check both token balance and ETH for gas.''),
                 actionText = Some ''Check wallet balance'' \<rparr>
          else if mentions_wrong_network errorMessage
          then \<lparr> type = Wrong_network, message = ''Wrong network'',
                 details = Some ''Please switch to the correct network in your wallet'',
                 actionText = Some ''Switch network'' \<rparr>
          else if mentions_revert errorMessage
          then \<lparr> type = Contract_error, message = ''Transaction failed'',
                 details = Some (revert_details errorMessage),
                 actionText = Some ''Try again later'' \<rparr>
          else if mentions_allowance errorMessage
          then \<lparr> type = Allowance_error, message = ''Approval required'',
                 details = Some ''You need to approve the contract spend your tokens first'',
                 actionText = Some ''Approve tokens'' \<rparr>
          else if mentions_rpc errorMessage
          then \<lparr> type = Network_error, message = ''Network error'',
                 details = Some ''Connection issue with the blockchain. This is usually temporary.'',
                 actionText = Some ''Try again'' \<rparr>
          else \<lparr> type = Unknown, message = ''Transaction failed'',
                 details = Some (case err of
                                   ErrorObject m \<Rightarrow> m
                                 | _ \<Rightarrow> ''An unexpected error occurred''),
                 actionText = Some ''Try again'' \<rparr>))"

section \<open>The transition table of the specification\<close>

text \<open>
  The states from which the specification's transition table (its section on the mint
  state machine) lets each \<open>*_START\<close> action fire: \<open>DETECT_START\<close> from \<open>initial\<close>,
  \<open>APPROVE_START\<close> from \<open>approve\<close>, \<open>MINT_START\<close> from \<open>sheet\<close>. This definition follows
  the specification, not the code; it is what the reducer is compared with.
\<close>

definition is_start :: "MintAction \<Rightarrow> bool" where
  "is_start a = (a = DETECT_START \<or> a = APPROVE_START \<or> a = MINT_START)"

definition spec_table_precedes :: "MintAction \<Rightarrow> MintStep \<Rightarrow> bool" where
  "spec_table_precedes a st =
     (case a of
        DETECT_START \<Rightarrow> st = Initial
      | APPROVE_START \<Rightarrow> st = Approve
      | MINT_START \<Rightarrow> st = Sheet
      | _ \<Rightarrow> True)"

section \<open>Concrete inputs\<close>

text \<open>
  Inputs at which the theorems below are instantiated: a contract none of whose reads
  succeeds, an encoder for the metadata document, and a mint request without an
  explicit provider, identifiers or recipient.
\<close>

abbreviation reverting_view :: ContractView where
  "reverting_view \<equiv>
     \<lparr> read_supportsInterface = (\<lambda>iface. Inl (ReadError ''execution reverted'')),
       read_getExtensions = Inl (ReadError ''execution reverted''),
       read_n2mVersion = Inl (ReadError ''execution reverted''),
       read_claimCondition = Inl (ReadError ''execution reverted''),
       read_sharedMetadata = Inl (ReadError ''execution reverted''),
       read_tokenURI = (\<lambda>t. Inl (ReadError ''execution reverted'')),
       read_uri = (\<lambda>t. Inl (ReadError ''execution reverted'')),
       read_contractURI = Inl (ReadError ''execution reverted''),
       read_baseURI = Inl (ReadError ''execution reverted''),
       read_ext_tokenURI = (\<lambda>c t. Inl (ReadError ''execution reverted'')),
       read_MINT_FEE = (\<lambda>a. Inl (ReadError ''execution reverted'')),
       read_getClaim = (\<lambda>a c i. Inl (ReadError ''execution reverted'')),
       read_getClaimForToken = (\<lambda>a c t. Inl (ReadError ''execution reverted'')),
       read_symbol = Inl (ReadError ''execution reverted''),
       read_decimals = Inl (ReadError ''execution reverted''),
       read_allowance = (\<lambda>owner spender. Inl (ReadError ''execution reverted'')),
       read_balanceOf = (\<lambda>owner. Inl (ReadError ''execution reverted'')) \<rparr>"

abbreviation plain_encoder :: "MetadataJson \<Rightarrow> string result" where
  "plain_encoder \<equiv> (\<lambda>doc. Inr (mj_image doc))"

abbreviation nft_address :: address where
  "nft_address \<equiv> ''0x32Dd0A7190B5bBA94549a0d04659a9258f5b1387''"

abbreviation token_address :: address where
  "token_address \<equiv> ''0x833589fCD6eDb6E08f4c7C32D4f71b54bdA02913''"

abbreviation other_extension :: address where
  "other_extension \<equiv> ''0x1EB73FEE2090fB1C20105d5Ba887e3c3bA14a17E''"

abbreviation plain_params :: MintParams where
  "plain_params \<equiv>
     \<lparr> contractAddress = nft_address, chainId = 8453, mp_provider = None,
       amount = Some 1, instanceId = None, tokenId = None, recipient = None,
       merkleProof = None \<rparr>"

abbreviation instance_params :: MintParams where
  "instance_params \<equiv> plain_params\<lparr> instanceId := Some ''4077'' \<rparr>"

text \<open>
  A claim paid in an ERC-20 token and one paid in the native currency, and a chain on
  which the Manifold extension charges a fee of 0.0005 ETH and serves the given claim.
\<close>

abbreviation usdc_claim :: RawClaim where
  "usdc_claim \<equiv>
     \<lparr> rc_cost = Some 1000000,
       rc_merkleRoot = ''0x0000000000000000000000000000000000000000000000000000000000000000'',
       rc_erc20 = Some token_address, rc_startDate = Some 0, rc_endDate = Some 0,
       rc_walletMax = Some 0 \<rparr>"

abbreviation eth_claim :: RawClaim where
  "eth_claim \<equiv> usdc_claim\<lparr> rc_cost := Some 2000000000000000, rc_erc20 := Some ZERO_ADDRESS \<rparr>"

abbreviation claim_client :: "RawClaim \<Rightarrow> Client" where
  "claim_client c \<equiv>
     (\<lambda>a. if a = manifoldExtension
          then reverting_view
                 \<lparr> read_MINT_FEE := (\<lambda>abi. Inr 500000000000000),
                   read_getClaim := (\<lambda>abi creator i. Inr c) \<rparr>
          else if a = token_address
          then reverting_view\<lparr> read_symbol := Inr ''USDC'', read_decimals := Inr 6 \<rparr>
          else reverting_view)"

text \<open>A contract that answers \<open>tokenURI\<close> with the empty string and \<open>uri\<close> with a template.\<close>

abbreviation uri_view :: ContractView where
  "uri_view \<equiv>
     reverting_view
       \<lparr> read_tokenURI := (\<lambda>t. Inr []),
         read_uri := (\<lambda>t. Inr ''https://m.example/{id}.json'') \<rparr>"

abbreviation padded_uri :: string where
  "padded_uri \<equiv>
     ''https://m.example/0000000000000000000000000000000000000000000000000000000000000007.json''"

text \<open>Mint sessions and detection payloads.\<close>

abbreviation waiting_for :: "TransactionType \<Rightarrow> MintState" where
  "waiting_for kind \<equiv>
     initialState\<lparr> step := Waiting, txHash := Some ''0xa1'', txType := Some kind \<rparr>"

abbreviation stored_usdc_claim :: Claim where
  "stored_usdc_claim \<equiv>
     \<lparr> cost = 1000000,
       merkleRoot = ''0x0000000000000000000000000000000000000000000000000000000000000000'',
       erc20 = token_address, startDate = 0, endDate = 0, walletMax = 0 \<rparr>"

abbreviation usdc_details :: "int option \<Rightarrow> Erc20Details" where
  "usdc_details allowance_opt \<equiv>
     \<lparr> erc20_address = token_address, symbol = ''USDC'', decimals = 6,
       allowance = allowance_opt, needsApproval = None \<rparr>"

abbreviation detect_payload :: "Claim option \<Rightarrow> Erc20Details option \<Rightarrow> DetectPayload" where
  "detect_payload claim_opt details_opt \<equiv>
     \<lparr> p_contractInfo = (manifold_info True False manifoldExtension)\<lparr> claim := claim_opt \<rparr>,
       p_priceData = \<lparr> mintPrice = Some 500000000000000, totalCost = 500000000000000,
                       erc20Details = details_opt \<rparr> \<rparr>"

section \<open>Auxiliary facts\<close>

subsection \<open>Strings\<close>

lemma startsWith_iff: "startsWith s p \<longleftrightarrow> (\<exists>b. s = p @ b)"
  by (induction s p rule: startsWith.induct) auto

text \<open>\<open>str_includes\<close> is substring containment.\<close>

lemma str_includes_iff: "str_includes s p \<longleftrightarrow> (\<exists>a b. s = a @ p @ b)"
proof (induction s)
  case Nil
  then show ?case by auto
next
  case (Cons c cs)
  show ?case
  proof
    assume "str_includes (c # cs) p"
    then consider "startsWith (c # cs) p" | "str_includes cs p" by auto
    then show "\<exists>a b. c # cs = a @ p @ b"
    proof cases
      case 1
      then obtain b where "c # cs = p @ b" using startsWith_iff by blast
      then have "c # cs = [] @ p @ b" by simp
      then show ?thesis by blast
    next
      case 2
      then obtain a b where "cs = a @ p @ b" using Cons.IH by blast
      then have "c # cs = (c # a) @ p @ b" by simp
      then show ?thesis by blast
    qed
  next
    assume "\<exists>a b. c # cs = a @ p @ b"
    then obtain a b where ab: "c # cs = a @ p @ b" by blast
    show "str_includes (c # cs) p"
    proof (cases a)
      case Nil
      then have "startsWith (c # cs) p" using ab startsWith_iff by auto
      then show ?thesis by simp
    next
      case (Cons x xs)
      then have "cs = xs @ p @ b" using ab by simp
      then have "str_includes cs p" using Cons.IH by blast
      then show ?thesis by simp
    qed
  qed
qed

lemma BigInt_4077: "BigInt ''4077'' = Inr 4077"
  by code_simp

lemma BigInt_7: "BigInt ''7'' = Inr 7"
  by code_simp

lemma getAddress_nft_address: "getAddress nft_address = Inr nft_address"
  by code_simp

subsection \<open>Provider configurations and detection\<close>

lemma PROVIDER_CONFIGS_manifold: "PROVIDER_CONFIGS ''manifold'' = Some manifold_config"
  by (simp add: PROVIDER_CONFIGS_def)

lemma manifold_config_abis:
  "abis (priceDiscovery (getProviderConfig ''manifold'' ci)) = [getManifoldABI ci]"
  "abi (mintConfig (getProviderConfig ''manifold'' ci)) = getManifoldABI ci"
  by (simp_all add: getProviderConfig_def PROVIDER_CONFIGS_manifold Let_def)

text \<open>The \<open>try\<close> block of the detector never reaches its \<open>catch\<close>.\<close>

lemma detect_probes_total: "\<exists>info. detect_probes cv = Inr info"
  by (auto simp: detect_probes_def Let_def split: option.splits list.splits sum.splits)

lemma detect_probes_flags:
  assumes "detect_probes cv = Inr info"
  shows "isERC721 info = catch_default (read_supportsInterface cv INTERFACE_ID_ERC721) False"
    and "isERC1155 info = catch_default (read_supportsInterface cv INTERFACE_ID_ERC1155) False"
  using assms
  by (auto simp: detect_probes_def Let_def manifold_info_def basic_info_def
      split: option.splits list.splits sum.splits if_splits)

lemma detect_probes_provider:
  assumes "detect_probes cv = Inr info"
  shows "read_getExtensions cv = Inl e \<Longrightarrow> provider info \<noteq> Manifold"
    and "read_n2mVersion cv = Inl e \<Longrightarrow> provider info \<noteq> Nfts2me"
    and "read_claimCondition cv = Inl e \<Longrightarrow> provider info \<noteq> Thirdweb"
  using assms
  by (auto simp: detect_probes_def Let_def manifold_info_def basic_info_def catch_null_def
      split: option.splits list.splits sum.splits if_splits)

subsection \<open>Price discovery\<close>

lemma callManifoldWithFallback_claim_update:
  "callManifoldWithFallback r (ci\<lparr> claim := x \<rparr>) = callManifoldWithFallback r ci"
  by (simp add: callManifoldWithFallback_def)

lemma fetch_claim_keeps:
  "fetch_claim client params ci = Inr (params', c) \<Longrightarrow>
     recipient params' = recipient params \<and> contractAddress params' = contractAddress params"
  by (auto simp: fetch_claim_def Let_def and_then_def split: if_splits sum.splits option.splits)

lemma erc20_batch_no_recipient:
  "erc20_batch client token None spender = Inr d \<Longrightarrow> q_allowance d = None \<and> q_balance d = None"
  by (auto simp: erc20_batch_def and_then_def Let_def split: sum.splits if_splits)

text \<open>
  The record written to \<open>contractInfo.claim\<close> exists exactly when the code's own list of
  missing properties is empty.
\<close>

lemma stored_claim_iff_none_missing: "stored_claim c \<noteq> None \<longleftrightarrow> missingProps c = []"
  by (auto simp: stored_claim_def missingProps_def split: option.splits)

subsection \<open>The loop over the fallback methods\<close>

lemma first_nonempty_empty_iff:
  "first_nonempty ms = [] \<longleftrightarrow> (\<forall>s. Inr s \<in> set ms \<longrightarrow> s = [])"
  by (induction ms rule: first_nonempty.induct) auto

lemma first_nonempty_first:
  "first_nonempty ms \<noteq> [] \<Longrightarrow>
     \<exists>pre post. ms = pre @ Inr (first_nonempty ms) # post \<and> (\<forall>s. Inr s \<in> set pre \<longrightarrow> s = [])"
proof (induction ms rule: first_nonempty.induct)
  case 1
  then show ?case by simp
next
  case (2 s rest)
  show ?case
  proof (cases "s = []")
    case True
    then have "first_nonempty rest \<noteq> []" using "2.prems" by simp
    then obtain pre post where
      pp: "rest = pre @ Inr (first_nonempty rest) # post" "\<forall>s. Inr s \<in> set pre \<longrightarrow> s = []"
      using "2.IH" True by blast
    have "Inr s # rest = (Inr s # pre) @ Inr (first_nonempty (Inr s # rest)) # post"
      using pp(1) True by simp
    moreover have "\<forall>t. Inr t \<in> set (Inr s # pre) \<longrightarrow> t = []"
      using pp(2) True by auto
    ultimately show ?thesis by blast
  next
    case False
    then have "Inr s # rest = [] @ Inr (first_nonempty (Inr s # rest)) # rest" by simp
    then show ?thesis by (metis empty_iff list.set(1))
  qed
next
  case (3 err rest)
  then have "first_nonempty rest \<noteq> []" by simp
  then obtain pre post where
    pp: "rest = pre @ Inr (first_nonempty rest) # post" "\<forall>s. Inr s \<in> set pre \<longrightarrow> s = []"
    using "3.IH" by blast
  have "Inl err # rest = (Inl err # pre) @ Inr (first_nonempty (Inl err # rest)) # post"
    using pp(1) by simp
  moreover have "\<forall>t. Inr t \<in> set (Inl err # pre) \<longrightarrow> t = []"
    using pp(2) by auto
  ultimately show ?case by blast
qed

text \<open>
  What the hinted method returns is returned as it is, the empty string included: the
  test for a non-empty result is made in the loop over the fallback methods only.
\<close>

lemma hinted_result_returned:
  assumes "getAddress contractAddr = Inr addr"
    and "BigInt tokenIdStr = Inr n"
    and "hint_attempt btoa_json client addr tokenIdStr n h = Inr (Some url)"
  shows "getTokenMetadataURL btoa_json client contractAddr tokenIdStr (Some h) = Inr url"
  using assms by (simp add: getTokenMetadataURL_def and_then_def)

subsection \<open>The error classifier\<close>

lemma parseError_types:
  assumes "error_text lowerCase err = Inr t"
  shows "\<exists>pe. parseError lowerCase err ctx = Inr pe \<and>
   (mentions_user_rejected t \<longrightarrow> type pe = User_rejected) \<and>
   (\<not> mentions_user_rejected t \<and> mentions_insufficient_funds t
      \<longrightarrow> type pe = Insufficient_funds) \<and>
   (\<not> mentions_user_rejected t \<and> \<not> mentions_insufficient_funds t \<and>
    mentions_wrong_network t
      \<longrightarrow> type pe = Wrong_network) \<and>
   (\<not> mentions_user_rejected t \<and> \<not> mentions_insufficient_funds t \<and>
    \<not> mentions_wrong_network t \<and> mentions_revert t
      \<longrightarrow> type pe = Contract_error \<and> message pe = ''Transaction failed'' \<and>
          details pe = Some (revert_details t) \<and> actionText pe = Some ''Try again later'') \<and>
   (\<not> mentions_user_rejected t \<and> \<not> mentions_insufficient_funds t \<and>
    \<not> mentions_wrong_network t \<and> \<not> mentions_revert t \<and>
    mentions_allowance t
      \<longrightarrow> type pe = Allowance_error) \<and>
   (\<not> mentions_user_rejected t \<and> \<not> mentions_insufficient_funds t \<and>
    \<not> mentions_wrong_network t \<and> \<not> mentions_revert t \<and>
    \<not> mentions_allowance t \<and> mentions_rpc t
      \<longrightarrow> type pe = Network_error) \<and>
   (\<not> mentions_user_rejected t \<and> \<not> mentions_insufficient_funds t \<and>
    \<not> mentions_wrong_network t \<and> \<not> mentions_revert t \<and>
    \<not> mentions_allowance t \<and> \<not> mentions_rpc t
      \<longrightarrow> type pe = Unknown)"
  using assms by (simp add: parseError_def and_then_def)

lemma parseError_throws:
  "error_text lowerCase err = Inl x \<Longrightarrow> parseError lowerCase err ctx = Inl x"
  by (simp add: parseError_def and_then_def)

lemma revert_details_cases:
  "(str_includes m ''sold out'' \<or> str_includes m ''max supply''
      \<longrightarrow> revert_details m = ''This NFT is sold out or has reached maximum supply.'') \<and>
   (\<not> str_includes m ''sold out'' \<and> \<not> str_includes m ''max supply'' \<and>
    (str_includes m ''not started'' \<or> str_includes m ''not active'')
      \<longrightarrow> revert_details m = ''Minting hasn't started yet or has ended.'') \<and>
   (\<not> str_includes m ''sold out'' \<and> \<not> str_includes m ''max supply'' \<and>
    \<not> str_includes m ''not started'' \<and> \<not> str_includes m ''not active'' \<and>
    (str_includes m ''max per wallet'' \<or> str_includes m ''exceeds max'')
      \<longrightarrow> revert_details m = ''You've reached the maximum amount allowed per wallet.'') \<and>
   (\<not> str_includes m ''sold out'' \<and> \<not> str_includes m ''max supply'' \<and>
    \<not> str_includes m ''not started'' \<and> \<not> str_includes m ''not active'' \<and>
    \<not> str_includes m ''max per wallet'' \<and> \<not> str_includes m ''exceeds max'' \<and>
    (str_includes m ''allowlist'' \<or> str_includes m ''not eligible'')
      \<longrightarrow> revert_details m
            = ''You're not eligible to mint this NFT. Check if it requires an allowlist.'') \<and>
   (\<not> str_includes m ''sold out'' \<and> \<not> str_includes m ''max supply'' \<and>
    \<not> str_includes m ''not started'' \<and> \<not> str_includes m ''not active'' \<and>
    \<not> str_includes m ''max per wallet'' \<and> \<not> str_includes m ''exceeds max'' \<and>
    \<not> str_includes m ''allowlist'' \<and> \<not> str_includes m ''not eligible''
      \<longrightarrow> revert_details m = ''The contract rejected this transaction.'')"
  by (simp add: revert_details_def)

lemma error_text_cases:
  "error_text lowerCase (ErrorObject msg) = Inr (lowerCase msg) \<and>
   error_text lowerCase (OtherValue msg) = Inr (lowerCase msg) \<and>
   error_text lowerCase ErrorObject_nonstring_message
     = Inl (TypeError ''error.message.toLowerCase is not a function'') \<and>
   error_text lowerCase (Unconvertible x) = Inl x"
  by (simp add: error_text_def)

lemma mentions_as_substrings:
  "(mentions_user_rejected m \<longleftrightarrow>
      (\<exists>a b. m = a @ ''user rejected'' @ b) \<or> (\<exists>a b. m = a @ ''user denied'' @ b)) \<and>
   (mentions_insufficient_funds m \<longleftrightarrow>
      (\<exists>a b. m = a @ ''insufficient funds'' @ b) \<or>
      (\<exists>a b. m = a @ ''insufficient balance'' @ b) \<or>
      (\<exists>a b. m = a @ ''not enough'' @ b) \<or>
      (\<exists>a b. m = a @ ''exceeds balance'' @ b))"
  unfolding mentions_user_rejected_def mentions_insufficient_funds_def str_includes_iff
  by (rule conjI) (rule refl)+

section \<open>The mint state machine: transaction events\<close>

text \<open>
  Claim C1. For every mint state, a \<open>TX_SUCCESS\<close> action dispatched while the
  transaction kind is \<open>approval\<close> (or \<open>null\<close>) leaves the state unchanged; only a
  \<open>TX_SUCCESS\<close> dispatched while the kind is \<open>mint\<close> changes the state, and then it moves
  the step to \<open>success\<close>, records the hash carried by the action, clears the loading flag
  and resets the kind to \<open>null\<close>.
\<close>

theorem tx_success_only_for_mint:
  "(txType s = Some Approval \<longrightarrow> mintReducer s (TX_SUCCESS h) = s) \<and>
   (txType s = None \<longrightarrow> mintReducer s (TX_SUCCESS h) = s) \<and>
   (txType s = Some Mint \<longrightarrow>
      mintReducer s (TX_SUCCESS h) =
        s\<lparr> step := Success, txHash := Some h, isLoading := False, txType := None \<rparr> \<and>
      step (mintReducer s (TX_SUCCESS h)) = Success \<and>
      txHash (mintReducer s (TX_SUCCESS h)) = Some h \<and>
      txType (mintReducer s (TX_SUCCESS h)) = None) \<and>
   (mintReducer s (TX_SUCCESS h) \<noteq> s \<longrightarrow> txType s = Some Mint)"
  by simp

theorem tx_success_only_for_mint_witness:
  "mintReducer (waiting_for Approval) (TX_SUCCESS ''0xb2'') = waiting_for Approval \<and>
   mintReducer (initialState\<lparr> step := Sheet \<rparr>) (TX_SUCCESS ''0xb2'')
     = initialState\<lparr> step := Sheet \<rparr> \<and>
   mintReducer (waiting_for Mint) (TX_SUCCESS ''0xb2'')
     = initialState\<lparr> step := Success, txHash := Some ''0xb2'', txType := None \<rparr>"
  using tx_success_only_for_mint [of "waiting_for Approval" "''0xb2''"]
        tx_success_only_for_mint [of "initialState\<lparr> step := Sheet \<rparr>" "''0xb2''"]
        tx_success_only_for_mint [of "waiting_for Mint" "''0xb2''"]
  by (simp add: initialState_def)

text \<open>
  Claim C10. From every mint state, \<open>TX_ERROR\<close> sets the step to \<open>error\<close>, records the
  message, clears the loading flag and the transaction kind, and leaves the recorded
  transaction hash (and the contract info, price data and validation errors) as they
  were: the hash of the failed transaction stays in the error state.
\<close>

theorem tx_error_keeps_hash:
  "mintReducer s (TX_ERROR msg) =
     s\<lparr> step := Error, error := Some msg, isLoading := False, txType := None \<rparr> \<and>
   step (mintReducer s (TX_ERROR msg)) = Error \<and>
   error (mintReducer s (TX_ERROR msg)) = Some msg \<and>
   isLoading (mintReducer s (TX_ERROR msg)) = False \<and>
   txType (mintReducer s (TX_ERROR msg)) = None \<and>
   txHash (mintReducer s (TX_ERROR msg)) = txHash s \<and>
   contractInfo (mintReducer s (TX_ERROR msg)) = contractInfo s \<and>
   priceData (mintReducer s (TX_ERROR msg)) = priceData s \<and>
   validationErrors (mintReducer s (TX_ERROR msg)) = validationErrors s"
  by simp

section \<open>The mint state machine: start actions\<close>

text \<open>
  Claim C2 as the specification states it: a \<open>*_START\<close> action arriving in a state that
  does not precede it in the transition table is a no-op or is routed to \<open>error\<close>. The
  reducer does neither: a \<open>MINT_START\<close> dispatched while a mint transaction is awaiting
  confirmation (step \<open>waiting\<close>, kind \<open>mint\<close>) moves the session to \<open>minting\<close>.
\<close>

theorem start_not_refused_counterexample:
  "is_start MINT_START \<and>
   \<not> spec_table_precedes MINT_START (step (waiting_for Mint)) \<and>
   mintReducer (waiting_for Mint) MINT_START \<noteq> waiting_for Mint \<and>
   step (mintReducer (waiting_for Mint) MINT_START) \<noteq> Error \<and>
   step (mintReducer (waiting_for Mint) MINT_START) = Minting"
  by (simp add: initialState_def spec_table_precedes_def is_start_def)

text \<open>
  Claim C2, amended. The reducer accepts every \<open>*_START\<close> action in every state:
  \<open>DETECT_START\<close> always moves the step to \<open>detecting\<close> (loading flag set, error cleared),
  \<open>APPROVE_START\<close> always to \<open>approving\<close> (loading flag set, kind \<open>approval\<close>) and
  \<open>MINT_START\<close> always to \<open>minting\<close> (loading flag set, kind \<open>mint\<close>); none of them is
  ever routed to \<open>error\<close>, and the contract info, price data, transaction hash and
  validation errors are kept. The reducer has no guard on the current step.
\<close>

theorem start_actions_accepted_everywhere:
  "mintReducer s DETECT_START = s\<lparr> step := Detecting, isLoading := True, error := None \<rparr> \<and>
   mintReducer s APPROVE_START
     = s\<lparr> step := Approving, isLoading := True, txType := Some Approval \<rparr> \<and>
   mintReducer s MINT_START = s\<lparr> step := Minting, isLoading := True, txType := Some Mint \<rparr> \<and>
   (is_start a \<longrightarrow>
      step (mintReducer s a) \<noteq> Error \<and>
      step (mintReducer s a) \<in> {Detecting, Approving, Minting} \<and>
      isLoading (mintReducer s a) \<and>
      contractInfo (mintReducer s a) = contractInfo s \<and>
      priceData (mintReducer s a) = priceData s \<and>
      txHash (mintReducer s a) = txHash s \<and>
      validationErrors (mintReducer s a) = validationErrors s)"
  by (auto simp: is_start_def)

theorem start_actions_accepted_everywhere_witness:
  "mintReducer (waiting_for Mint) MINT_START
     = initialState\<lparr> step := Minting, txHash := Some ''0xa1'', txType := Some Mint,
                     isLoading := True \<rparr> \<and>
   mintReducer (waiting_for Mint) APPROVE_START
     = initialState\<lparr> step := Approving, txHash := Some ''0xa1'', txType := Some Approval,
                     isLoading := True \<rparr> \<and>
   step (mintReducer (waiting_for Approval) DETECT_START) = Detecting"
  using start_actions_accepted_everywhere [of "waiting_for Mint" MINT_START]
        start_actions_accepted_everywhere [of "waiting_for Approval" DETECT_START]
  by (simp add: initialState_def is_start_def)

section \<open>The mint state machine: approval gating\<close>

text \<open>
  Claim C3. On \<open>DETECT_SUCCESS\<close> the step becomes \<open>approve\<close> when the payload carries
  ERC-20 details with a known allowance strictly below the cost of the claim; it
  becomes \<open>sheet\<close> when the allowance covers the cost, when the allowance is unknown,
  when there is no claim and when there are no ERC-20 details. In both cases the
  payload's contract info is stored, the payload's price data is stored (mint price,
  total cost and, field by field, the ERC-20 details, to which the reducer adds the
  approval flag it has just computed), the loading flag is cleared and the error,
  transaction and validation fields are kept.
\<close>

theorem detect_success_gating:
  "(\<forall>e c a. erc20Details (p_priceData p) = Some e \<and> claim (p_contractInfo p) = Some c \<and>
        allowance e = Some a \<and> a < cost c
      \<longrightarrow> step (mintReducer s (DETECT_SUCCESS p)) = Approve) \<and>
   (\<forall>e c a. erc20Details (p_priceData p) = Some e \<and> claim (p_contractInfo p) = Some c \<and>
        allowance e = Some a \<and> cost c \<le> a
      \<longrightarrow> step (mintReducer s (DETECT_SUCCESS p)) = Sheet) \<and>
   (\<forall>e. erc20Details (p_priceData p) = Some e \<and> allowance e = None
      \<longrightarrow> step (mintReducer s (DETECT_SUCCESS p)) = Sheet) \<and>
   (claim (p_contractInfo p) = None \<longrightarrow> step (mintReducer s (DETECT_SUCCESS p)) = Sheet) \<and>
   (erc20Details (p_priceData p) = None \<longrightarrow> step (mintReducer s (DETECT_SUCCESS p)) = Sheet) \<and>
   contractInfo (mintReducer s (DETECT_SUCCESS p)) = Some (p_contractInfo p) \<and>
   mintPrice (priceData (mintReducer s (DETECT_SUCCESS p))) = mintPrice (p_priceData p) \<and>
   totalCost (priceData (mintReducer s (DETECT_SUCCESS p))) = totalCost (p_priceData p) \<and>
   (erc20Details (p_priceData p) = None \<longrightarrow>
      priceData (mintReducer s (DETECT_SUCCESS p)) = p_priceData p) \<and>
   (\<forall>e. erc20Details (p_priceData p) = Some e \<longrightarrow>
      (\<exists>e'. erc20Details (priceData (mintReducer s (DETECT_SUCCESS p))) = Some e' \<and>
            erc20_address e' = erc20_address e \<and> symbol e' = symbol e \<and>
            decimals e' = decimals e \<and> allowance e' = allowance e \<and>
            (needsApproval e' = Some True) = (step (mintReducer s (DETECT_SUCCESS p)) = Approve))) \<and>
   isLoading (mintReducer s (DETECT_SUCCESS p)) = False \<and>
   error (mintReducer s (DETECT_SUCCESS p)) = error s \<and>
   txHash (mintReducer s (DETECT_SUCCESS p)) = txHash s \<and>
   txType (mintReducer s (DETECT_SUCCESS p)) = txType s \<and>
   validationErrors (mintReducer s (DETECT_SUCCESS p)) = validationErrors s"
  by (auto simp: Let_def detect_needsApproval_def truthy_flag_def split: option.splits)

theorem detect_success_gating_witness:
  "step (mintReducer (initialState\<lparr> step := Detecting, isLoading := True \<rparr>)
          (DETECT_SUCCESS (detect_payload (Some stored_usdc_claim) (Some (usdc_details (Some 999999))))))
     = Approve \<and>
   step (mintReducer (initialState\<lparr> step := Detecting, isLoading := True \<rparr>)
          (DETECT_SUCCESS (detect_payload (Some stored_usdc_claim) (Some (usdc_details (Some 1000000))))))
     = Sheet \<and>
   step (mintReducer (initialState\<lparr> step := Detecting, isLoading := True \<rparr>)
          (DETECT_SUCCESS (detect_payload (Some stored_usdc_claim) (Some (usdc_details None)))))
     = Sheet \<and>
   step (mintReducer (initialState\<lparr> step := Detecting, isLoading := True \<rparr>)
          (DETECT_SUCCESS (detect_payload None (Some (usdc_details (Some 0))))))
     = Sheet \<and>
   step (mintReducer (initialState\<lparr> step := Detecting, isLoading := True \<rparr>)
          (DETECT_SUCCESS (detect_payload (Some stored_usdc_claim) None)))
     = Sheet \<and>
   priceData (mintReducer (initialState\<lparr> step := Detecting, isLoading := True \<rparr>)
          (DETECT_SUCCESS (detect_payload (Some stored_usdc_claim) None)))
     = p_priceData (detect_payload (Some stored_usdc_claim) None)"
  using detect_success_gating
          [of "detect_payload (Some stored_usdc_claim) (Some (usdc_details (Some 999999)))"
              "initialState\<lparr> step := Detecting, isLoading := True \<rparr>"]
        detect_success_gating
          [of "detect_payload (Some stored_usdc_claim) (Some (usdc_details (Some 1000000)))"
              "initialState\<lparr> step := Detecting, isLoading := True \<rparr>"]
        detect_success_gating
          [of "detect_payload (Some stored_usdc_claim) (Some (usdc_details None))"
              "initialState\<lparr> step := Detecting, isLoading := True \<rparr>"]
        detect_success_gating
          [of "detect_payload None (Some (usdc_details (Some 0)))"
              "initialState\<lparr> step := Detecting, isLoading := True \<rparr>"]
        detect_success_gating
          [of "detect_payload (Some stored_usdc_claim) None"
              "initialState\<lparr> step := Detecting, isLoading := True \<rparr>"]
  by (simp add: manifold_info_def basic_info_def)

section \<open>ABI selection for the Manifold provider\<close>

text \<open>
  Claim C5. For the \<open>manifold\<close> provider, \<open>getProviderConfig\<close> returns a configuration
  whose price-discovery ABI and mint ABI are the ERC-721 (single-edition) extension
  ABI when the contract info has \<open>isERC721\<close> set, the ERC-1155 (multi-edition)
  extension ABI when it has \<open>isERC1155\<close> set, and the ERC-721 ABI when both flags are
  false or when no contract info is passed at all. The cases are taken in this
  order, as the code takes them: a contract info with both flags set falls under the
  first.
\<close>

theorem manifold_abi_selection:
  "(isERC721 ci \<longrightarrow>
      abis (priceDiscovery (getProviderConfig (provider_key Manifold) (Some ci)))
        = [MANIFOLD_ERC721_EXTENSION_ABI] \<and>
      abi (mintConfig (getProviderConfig (provider_key Manifold) (Some ci)))
        = MANIFOLD_ERC721_EXTENSION_ABI) \<and>
   (\<not> isERC721 ci \<and> isERC1155 ci \<longrightarrow>
      abis (priceDiscovery (getProviderConfig (provider_key Manifold) (Some ci)))
        = [MANIFOLD_ERC1155_EXTENSION_ABI] \<and>
      abi (mintConfig (getProviderConfig (provider_key Manifold) (Some ci)))
        = MANIFOLD_ERC1155_EXTENSION_ABI) \<and>
   (\<not> isERC721 ci \<and> \<not> isERC1155 ci \<longrightarrow>
      abis (priceDiscovery (getProviderConfig (provider_key Manifold) (Some ci)))
        = [MANIFOLD_ERC721_EXTENSION_ABI] \<and>
      abi (mintConfig (getProviderConfig (provider_key Manifold) (Some ci)))
        = MANIFOLD_ERC721_EXTENSION_ABI) \<and>
   abis (priceDiscovery (getProviderConfig (provider_key Manifold) None))
     = [MANIFOLD_ERC721_EXTENSION_ABI] \<and>
   abi (mintConfig (getProviderConfig (provider_key Manifold) None))
     = MANIFOLD_ERC721_EXTENSION_ABI \<and>
   abi (mintConfig (getProviderConfig (provider_key Manifold) (Some ci)))
     = (if isERC721 ci then MANIFOLD_ERC721_EXTENSION_ABI
        else if isERC1155 ci then MANIFOLD_ERC1155_EXTENSION_ABI
        else MANIFOLD_ERC721_EXTENSION_ABI) \<and>
   abis (priceDiscovery (getProviderConfig (provider_key Manifold) (Some ci)))
     = [abi (mintConfig (getProviderConfig (provider_key Manifold) (Some ci)))] \<and>
   MANIFOLD_ERC721_EXTENSION_ABI \<noteq> MANIFOLD_ERC1155_EXTENSION_ABI"
  by (simp add: provider_key_def manifold_config_abis getManifoldABI_def)

theorem manifold_abi_selection_witness:
  "abi (mintConfig (getProviderConfig ''manifold'' (Some (basic_info Manifold False True))))
     = MANIFOLD_ERC721_EXTENSION_ABI \<and>
   abis (priceDiscovery (getProviderConfig ''manifold'' (Some (basic_info Manifold False True))))
     = [MANIFOLD_ERC721_EXTENSION_ABI] \<and>
   abi (mintConfig (getProviderConfig ''manifold'' (Some (basic_info Manifold True False))))
     = MANIFOLD_ERC1155_EXTENSION_ABI \<and>
   abis (priceDiscovery (getProviderConfig ''manifold'' (Some (basic_info Manifold True False))))
     = [MANIFOLD_ERC1155_EXTENSION_ABI] \<and>
   abi (mintConfig (getProviderConfig ''manifold'' (Some (basic_info Manifold False False))))
     = MANIFOLD_ERC721_EXTENSION_ABI \<and>
   abi (mintConfig (getProviderConfig ''manifold'' (Some (basic_info Manifold True True))))
     = MANIFOLD_ERC721_EXTENSION_ABI"
  using manifold_abi_selection [of "basic_info Manifold False True"]
        manifold_abi_selection [of "basic_info Manifold True False"]
        manifold_abi_selection [of "basic_info Manifold False False"]
        manifold_abi_selection [of "basic_info Manifold True True"]
  by (simp add: basic_info_def provider_key_def)

section \<open>Provider detection\<close>

text \<open>
  Claim C4. For every mint request and every behaviour of the chain,
  \<open>detectNFTProvider\<close> returns a contract info and never throws. The failure of a single
  probe counts as "no match": a failed interface probe leaves its flag false, a failed
  extension-list probe rules out \<open>manifold\<close>, a failed version probe rules out
  \<open>nfts2me\<close>, a failed claim-condition probe rules out \<open>thirdweb\<close>. When every probe
  fails, the result is the \<open>generic\<close> provider with both flags false.
\<close>

theorem detect_never_throws:
  "(\<exists>info. detectNFTProvider getClientForChain params = Inr info) \<and>
   (\<forall>e1 e2 e3 e4 e5.
      mp_provider params = None \<and>
      read_supportsInterface (getClientForChain (chainId params) (contractAddress params))
        INTERFACE_ID_ERC721 = Inl e1 \<and>
      read_supportsInterface (getClientForChain (chainId params) (contractAddress params))
        INTERFACE_ID_ERC1155 = Inl e2 \<and>
      read_getExtensions (getClientForChain (chainId params) (contractAddress params)) = Inl e3 \<and>
      read_n2mVersion (getClientForChain (chainId params) (contractAddress params)) = Inl e4 \<and>
      read_claimCondition (getClientForChain (chainId params) (contractAddress params)) = Inl e5
      \<longrightarrow> detectNFTProvider getClientForChain params = Inr (basic_info Generic False False)) \<and>
   (\<forall>info e.
      mp_provider params = None \<and> detectNFTProvider getClientForChain params = Inr info \<longrightarrow>
        (read_supportsInterface (getClientForChain (chainId params) (contractAddress params))
           INTERFACE_ID_ERC721 = Inl e \<longrightarrow> \<not> isERC721 info) \<and>
        (read_supportsInterface (getClientForChain (chainId params) (contractAddress params))
           INTERFACE_ID_ERC1155 = Inl e \<longrightarrow> \<not> isERC1155 info) \<and>
        (read_getExtensions (getClientForChain (chainId params) (contractAddress params)) = Inl e
           \<longrightarrow> provider info \<noteq> Manifold) \<and>
        (read_n2mVersion (getClientForChain (chainId params) (contractAddress params)) = Inl e
           \<longrightarrow> provider info \<noteq> Nfts2me) \<and>
        (read_claimCondition (getClientForChain (chainId params) (contractAddress params)) = Inl e
           \<longrightarrow> provider info \<noteq> Thirdweb))"
proof -
  let ?cv = "getClientForChain (chainId params) (contractAddress params)"
  have total: "\<exists>info. detectNFTProvider getClientForChain params = Inr info"
  proof (cases "mp_provider params")
    case None
    then show ?thesis
      using detect_probes_total [of ?cv] by (auto simp: detectNFTProvider_def Let_def)
  next
    case (Some sp)
    then show ?thesis
      by (cases sp)
         (simp_all add: detectNFTProvider_def Let_def provider_key_def PROVIDER_CONFIGS_def)
  qed
  have allfail: "\<forall>e1 e2 e3 e4 e5.
      mp_provider params = None \<and>
      read_supportsInterface ?cv INTERFACE_ID_ERC721 = Inl e1 \<and>
      read_supportsInterface ?cv INTERFACE_ID_ERC1155 = Inl e2 \<and>
      read_getExtensions ?cv = Inl e3 \<and>
      read_n2mVersion ?cv = Inl e4 \<and>
      read_claimCondition ?cv = Inl e5
      \<longrightarrow> detectNFTProvider getClientForChain params = Inr (basic_info Generic False False)"
    by (simp add: detectNFTProvider_def detect_probes_def Let_def catch_default_def catch_null_def)
  have probes: "mp_provider params = None \<and> detectNFTProvider getClientForChain params = Inr info
      \<Longrightarrow> detect_probes ?cv = Inr info" for info
    using detect_probes_total [of ?cv]
    by (auto simp: detectNFTProvider_def Let_def split: sum.splits)
  have each: "\<forall>info e.
      mp_provider params = None \<and> detectNFTProvider getClientForChain params = Inr info \<longrightarrow>
        (read_supportsInterface ?cv INTERFACE_ID_ERC721 = Inl e \<longrightarrow> \<not> isERC721 info) \<and>
        (read_supportsInterface ?cv INTERFACE_ID_ERC1155 = Inl e \<longrightarrow> \<not> isERC1155 info) \<and>
        (read_getExtensions ?cv = Inl e \<longrightarrow> provider info \<noteq> Manifold) \<and>
        (read_n2mVersion ?cv = Inl e \<longrightarrow> provider info \<noteq> Nfts2me) \<and>
        (read_claimCondition ?cv = Inl e \<longrightarrow> provider info \<noteq> Thirdweb)"
    using detect_probes_flags detect_probes_provider probes
    by (auto simp: catch_default_def)
  show ?thesis using total allfail each by blast
qed

theorem detect_never_throws_witness:
  "detectNFTProvider (\<lambda>chain a. reverting_view) plain_params = Inr (basic_info Generic False False)"
  using detect_never_throws [of "\<lambda>chain a. reverting_view" plain_params]
  by simp

text \<open>
  Claim C6. When no provider is given in the request (so that the probes are run) and
  the extension-list probe returns a non-empty array, \<open>detectNFTProvider\<close> classifies
  the contract as \<open>manifold\<close> with the extension flag set, and the recorded extension
  address is the first returned extension that the catalog lists as well known, else
  the first returned extension; with exactly one address returned it is that address.
\<close>

theorem manifold_detection:
  assumes "mp_provider params = None"
    and "read_getExtensions (getClientForChain (chainId params) (contractAddress params))
           = Inr exts"
    and "exts \<noteq> []"
  shows "\<exists>info. detectNFTProvider getClientForChain params = Inr info \<and>
           provider info = Manifold \<and>
           hasManifoldExtension info = Some True \<and>
           (case find (extension_listed manifold_config) exts of
              Some known \<Rightarrow> extensionAddress info = Some known
            | None \<Rightarrow> extensionAddress info = Some (hd exts)) \<and>
           (manifoldExtension \<in> set exts \<longrightarrow> extensionAddress info = Some manifoldExtension) \<and>
           (manifoldExtension \<notin> set exts \<longrightarrow> extensionAddress info = Some (hd exts)) \<and>
           (\<forall>a. exts = [a] \<longrightarrow> extensionAddress info = Some a)"
proof -
  obtain e es where ex: "exts = e # es" using assms(3) by (cases exts) auto
  have listed: "extension_listed manifold_config = (\<lambda>ext. ext = manifoldExtension)"
    by (auto simp: extension_listed_def manifold_config_def)
  have found: "find (\<lambda>ext. ext = manifoldExtension) exts =
                 (if manifoldExtension \<in> set exts then Some manifoldExtension else None)"
    by (induction exts) auto
  show ?thesis
    using assms(1,2) ex found
    by (auto simp: detectNFTProvider_def detect_probes_def Let_def catch_null_def listed
        manifold_info_def basic_info_def str_or_def truthy_str_def manifoldExtension_def
        split: option.splits if_splits)
qed

theorem manifold_detection_witness:
  "(\<exists>info. detectNFTProvider
             (\<lambda>chain a. reverting_view\<lparr> read_getExtensions := Inr [other_extension] \<rparr>)
             plain_params = Inr info \<and>
           provider info = Manifold \<and> extensionAddress info = Some other_extension) \<and>
   (\<exists>info. detectNFTProvider
             (\<lambda>chain a. reverting_view
                \<lparr> read_getExtensions := Inr [other_extension, manifoldExtension] \<rparr>)
             plain_params = Inr info \<and>
           provider info = Manifold \<and> extensionAddress info = Some manifoldExtension)"
proof -
  have p: "mp_provider plain_params = None" by simp
  have a: "read_getExtensions
             ((\<lambda>chain a. reverting_view\<lparr> read_getExtensions := Inr [other_extension] \<rparr>)
                (chainId plain_params) (contractAddress plain_params)) = Inr [other_extension]"
    by simp
  have b: "read_getExtensions
             ((\<lambda>chain a. reverting_view
                 \<lparr> read_getExtensions := Inr [other_extension, manifoldExtension] \<rparr>)
                (chainId plain_params) (contractAddress plain_params))
           = Inr [other_extension, manifoldExtension]"
    by simp
  have na: "[other_extension] \<noteq> []" and nb: "[other_extension, manifoldExtension] \<noteq> []"
    by simp_all
  show ?thesis
    using manifold_detection [OF p a na] manifold_detection [OF p b nb]
    by (auto simp: manifoldExtension_def)
qed

section \<open>Price discovery for the Manifold provider\<close>

text \<open>
  Claim C7. In the Manifold branch of price discovery, let the mint fee read yield
  \<open>f\<close> and let a claim be fetched that passes the structural checks. When the claim's
  \<open>erc20\<close> is a non-zero address, the returned total cost (in the native currency) is
  the fee \<open>f\<close> alone, the ERC-20 details of a successful batch are returned, and with
  no recipient in the request their allowance and balance are \<open>undefined\<close>, not zero.
  When the claim's \<open>erc20\<close> is the zero address, the total cost is \<open>f\<close> plus the cost of
  the claim and there are no ERC-20 details.
\<close>

theorem manifold_total_cost:
  assumes branch: "manifold_branch ci"
    and fee: "callManifoldWithFallback
                (read_MINT_FEE (client (str_or (extensionAddress ci) []))) ci = Inr f"
    and fetched: "fetch_claim client params ci = Inr (params', Some c)"
    and valid: "stored_claim c = Some st"
  shows "(erc20 st \<noteq> [] \<and> erc20 st \<noteq> ZERO_ADDRESS \<longrightarrow>
            q_totalCost (fst (fetchPriceData_manifold client params ci)) = f \<and>
            (recipient params = None \<longrightarrow>
               (\<forall>d. q_erc20Details (fst (fetchPriceData_manifold client params ci)) = Some d
                  \<longrightarrow> q_allowance d = None \<and> q_balance d = None)) \<and>
            (\<forall>d. erc20_batch client (erc20 st) (recipient params)
                    (str_or (extensionAddress ci) (contractAddress params)) = Inr d
               \<longrightarrow> q_erc20Details (fst (fetchPriceData_manifold client params ci)) = Some d)) \<and>
         (erc20 st = ZERO_ADDRESS \<longrightarrow>
            q_totalCost (fst (fetchPriceData_manifold client params ci)) = f + cost st \<and>
            q_erc20Details (fst (fetchPriceData_manifold client params ci)) = None)"
proof -
  note rc = fetch_claim_keeps [OF fetched]
  show ?thesis
    using fee fetched valid rc
    by (auto simp: fetchPriceData_manifold_def manifold_try_def with_claim_def Let_def
        catch_null_def or_zero_def callManifoldWithFallback_claim_update
        split: sum.splits dest: erc20_batch_no_recipient)
qed

theorem manifold_total_cost_witness:
  "q_totalCost (fst (fetchPriceData_manifold (claim_client usdc_claim) instance_params
      (manifold_info True False manifoldExtension))) = 500000000000000 \<and>
   q_erc20Details (fst (fetchPriceData_manifold (claim_client usdc_claim) instance_params
      (manifold_info True False manifoldExtension)))
     = Some \<lparr> q_address = token_address, q_symbol = ''USDC'', q_decimals = 6,
              q_allowance = None, q_balance = None \<rparr> \<and>
   q_totalCost (fst (fetchPriceData_manifold (claim_client eth_claim) instance_params
      (manifold_info True False manifoldExtension))) = 500000000000000 + 2000000000000000"
proof -
  let ?ci = "manifold_info True False manifoldExtension"
  have ext: "str_or (extensionAddress ?ci) [] = manifoldExtension"
    by (simp add: manifold_info_def basic_info_def str_or_def manifoldExtension_def)
  have branch: "manifold_branch ?ci"
    by (simp add: manifold_branch_def manifold_info_def basic_info_def truthy_str_def
        manifoldExtension_def)
  have fee: "callManifoldWithFallback
               (read_MINT_FEE (claim_client c (str_or (extensionAddress ?ci) []))) ?ci
             = Inr 500000000000000" for c
    unfolding ext by (simp add: callManifoldWithFallback_def)
  have fetched: "fetch_claim (claim_client c) instance_params ?ci
                   = Inr (instance_params, Some c)" for c
    unfolding fetch_claim_def ext
    by (simp add: Let_def truthy_str_def str_or_def BigInt_4077 and_then_def catch_null_def
        callManifoldWithFallback_def)
  have v1: "stored_claim usdc_claim = Some stored_usdc_claim"
    by (simp add: stored_claim_def)
  have v2: "stored_claim eth_claim
              = Some (stored_usdc_claim\<lparr> cost := 2000000000000000, erc20 := ZERO_ADDRESS \<rparr>)"
    by (simp add: stored_claim_def)
  have batch: "erc20_batch (claim_client usdc_claim) token_address (recipient instance_params)
                 (str_or (extensionAddress ?ci) (contractAddress instance_params))
               = Inr \<lparr> q_address = token_address, q_symbol = ''USDC'', q_decimals = 6,
                        q_allowance = None, q_balance = None \<rparr>"
    by (simp add: erc20_batch_def and_then_def manifoldExtension_def)
  show ?thesis
    using manifold_total_cost [OF branch fee fetched v1]
          manifold_total_cost [OF branch fee fetched v2] batch
    by (simp add: ZERO_ADDRESS_def)
qed

section \<open>The metadata resolver\<close>

text \<open>
  Claim C8 as the specification states it: for every contract address and token id the
  resolver returns a string and never throws. The address and the token id are parsed
  before the first \<open>try\<close> block, so a token id that is not an integer literal makes the
  call throw: with the token id \<open>abc\<close> the result is a \<open>SyntaxError\<close>, not the empty
  string.
\<close>

theorem metadata_url_throws_counterexample:
  "getTokenMetadataURL plain_encoder (\<lambda>a. reverting_view) nft_address ''abc'' None
   = Inl (SyntaxError ''Cannot convert abc to a BigInt'')"
  by code_simp

text \<open>
  Claim C8, amended. For every contract address that \<open>getAddress\<close> accepts and every
  token id that \<open>BigInt\<close> accepts, \<open>getTokenMetadataURL\<close> returns a string and does not
  throw. Without a provider hint the result is the first non-empty string that a
  method of the fallback chain produces (every earlier method threw or produced the
  empty string), and the empty string when no method produces a non-empty one. With
  a provider hint, a non-empty string produced by the hinted method is returned, and
  when the hinted method throws or finds nothing the result is that of the whole
  fallback chain.
\<close>

theorem metadata_url_fallback:
  assumes addr_ok: "getAddress contractAddr = Inr addr"
    and id_ok: "BigInt tokenIdStr = Inr n"
  shows "(\<exists>url. getTokenMetadataURL btoa_json client contractAddr tokenIdStr hint = Inr url) \<and>
         getTokenMetadataURL btoa_json client contractAddr tokenIdStr None
           = Inr (first_nonempty (fallbackMethods btoa_json client addr tokenIdStr n)) \<and>
         (\<forall>h. (\<forall>url. hint_attempt btoa_json client addr tokenIdStr n h \<noteq> Inr (Some url))
            \<longrightarrow> getTokenMetadataURL btoa_json client contractAddr tokenIdStr (Some h)
                  = Inr (first_nonempty (fallbackMethods btoa_json client addr tokenIdStr n))) \<and>
         (\<forall>h url. hint_attempt btoa_json client addr tokenIdStr n h = Inr (Some url) \<and> url \<noteq> []
            \<longrightarrow> getTokenMetadataURL btoa_json client contractAddr tokenIdStr (Some h) = Inr url) \<and>
         ((\<forall>s. Inr s \<in> set (fallbackMethods btoa_json client addr tokenIdStr n) \<longrightarrow> s = [])
            \<longrightarrow> getTokenMetadataURL btoa_json client contractAddr tokenIdStr None = Inr []) \<and>
         (\<forall>url. getTokenMetadataURL btoa_json client contractAddr tokenIdStr None = Inr url \<and>
                 url \<noteq> []
            \<longrightarrow> (\<exists>pre post.
                   fallbackMethods btoa_json client addr tokenIdStr n = pre @ Inr url # post \<and>
                   (\<forall>s. Inr s \<in> set pre \<longrightarrow> s = [])))"
proof -
  let ?ms = "fallbackMethods btoa_json client addr tokenIdStr n"
  have none: "getTokenMetadataURL btoa_json client contractAddr tokenIdStr None
                = Inr (first_nonempty ?ms)"
    using assms by (simp add: getTokenMetadataURL_def and_then_def)
  have total: "\<exists>url. getTokenMetadataURL btoa_json client contractAddr tokenIdStr hint = Inr url"
    using assms
    by (auto simp: getTokenMetadataURL_def and_then_def split: option.splits sum.splits)
  have skip: "\<forall>h. (\<forall>url. hint_attempt btoa_json client addr tokenIdStr n h \<noteq> Inr (Some url))
            \<longrightarrow> getTokenMetadataURL btoa_json client contractAddr tokenIdStr (Some h)
                  = Inr (first_nonempty ?ms)"
    using assms
    by (auto simp: getTokenMetadataURL_def and_then_def split: option.splits sum.splits)
  have hit: "\<forall>h url. hint_attempt btoa_json client addr tokenIdStr n h = Inr (Some url) \<and> url \<noteq> []
            \<longrightarrow> getTokenMetadataURL btoa_json client contractAddr tokenIdStr (Some h) = Inr url"
    using assms by (simp add: getTokenMetadataURL_def and_then_def)
  have allfail: "(\<forall>s. Inr s \<in> set ?ms \<longrightarrow> s = [])
            \<longrightarrow> getTokenMetadataURL btoa_json client contractAddr tokenIdStr None = Inr []"
    using none first_nonempty_empty_iff [of ?ms] by simp
  have first: "\<forall>url. getTokenMetadataURL btoa_json client contractAddr tokenIdStr None = Inr url \<and>
                 url \<noteq> []
            \<longrightarrow> (\<exists>pre post. ?ms = pre @ Inr url # post \<and> (\<forall>s. Inr s \<in> set pre \<longrightarrow> s = []))"
    using none first_nonempty_first [of ?ms] by auto
  show ?thesis using none total skip hit allfail first by blast
qed

theorem metadata_url_fallback_witness:
  "getTokenMetadataURL plain_encoder (\<lambda>a. reverting_view) nft_address ''7'' None = Inr [] \<and>
   getTokenMetadataURL plain_encoder (\<lambda>a. uri_view) nft_address ''7'' None = Inr padded_uri \<and>
   getTokenMetadataURL plain_encoder (\<lambda>a. uri_view) nft_address ''7'' (Some Hint_manifold)
     = Inr padded_uri \<and>
   getTokenMetadataURL plain_encoder (\<lambda>a. uri_view) nft_address ''7'' (Some Hint_erc1155)
     = Inr padded_uri"
proof -
  note a = getAddress_nft_address and i = BigInt_7
  have dead: "\<forall>s. Inr s \<in> set (fallbackMethods plain_encoder (\<lambda>a. reverting_view) nft_address ''7'' 7)
                \<longrightarrow> s = []"
    by (simp add: fallbackMethods_def and_then_def detectManifoldContract_def a not_manifold_def)
  have ms: "first_nonempty (fallbackMethods plain_encoder (\<lambda>a. uri_view) nft_address ''7'' 7)
              = padded_uri"
    by code_simp
  have h1: "\<forall>url. hint_attempt plain_encoder (\<lambda>a. uri_view) nft_address ''7'' 7 Hint_manifold
                  \<noteq> Inr (Some url)"
    by (simp add: hint_attempt_def detectManifoldContract_def a and_then_def not_manifold_def)
  have h2: "hint_attempt plain_encoder (\<lambda>a. uri_view) nft_address ''7'' 7 Hint_erc1155
              = Inr (Some padded_uri)"
    by code_simp
  have ne: "padded_uri \<noteq> []" by simp
  note T1 = metadata_url_fallback [OF a i, of plain_encoder "\<lambda>a. reverting_view" None]
  note T2 = metadata_url_fallback [OF a i, of plain_encoder "\<lambda>a. uri_view" None]
  have r1: "getTokenMetadataURL plain_encoder (\<lambda>a. reverting_view) nft_address ''7'' None = Inr []"
    using T1 dead by blast
  have r2: "getTokenMetadataURL plain_encoder (\<lambda>a. uri_view) nft_address ''7'' None
              = Inr padded_uri"
    using T2 [THEN conjunct2, THEN conjunct1] ms by simp
  have r3: "getTokenMetadataURL plain_encoder (\<lambda>a. uri_view) nft_address ''7'' (Some Hint_manifold)
              = Inr padded_uri"
    using T2 [THEN conjunct2, THEN conjunct2, THEN conjunct1, THEN spec, THEN mp, OF h1] ms
    by simp
  have r4: "getTokenMetadataURL plain_encoder (\<lambda>a. uri_view) nft_address ''7'' (Some Hint_erc1155)
              = Inr padded_uri"
    using T2 [THEN conjunct2, THEN conjunct2, THEN conjunct2, THEN conjunct1, THEN spec,
              THEN spec, THEN mp, OF conjI [OF h2 ne]]
    by simp
  show ?thesis using r1 r2 r3 r4 by blast
qed

section \<open>The error classifier\<close>

text \<open>
  Claim C9 as the specification states it: every input yields some \<open>ParsedError\<close>. The
  first line of \<open>parseError\<close> reads the text of its argument outside any \<open>try\<close> block, so
  an argument that has no text makes the call throw instead of returning a
  \<open>ParsedError\<close>: an \<open>Error\<close> whose \<open>message\<close> is not a string fails at
  \<open>error.message.toLowerCase()\<close>, and a value such as \<open>Object.create(null)\<close> fails at
  \<open>String(error)\<close>, both with a \<open>TypeError\<close>.
\<close>

theorem parseError_throws_counterexample:
  "parseError toLowerCase ErrorObject_nonstring_message Mint
     = Inl (TypeError ''error.message.toLowerCase is not a function'') \<and>
   parseError toLowerCase (Unconvertible (TypeError ''Cannot convert object to primitive value''))
       Approval
     = Inl (TypeError ''Cannot convert object to primitive value'')"
  by (simp add: parseError_def error_text_def and_then_def)

text \<open>
  Claim C9, amended. For every argument whose text can be read (an \<open>Error\<close> with a string
  message, or a value that \<open>String\<close> converts), \<open>parseError\<close> returns a \<open>ParsedError\<close>: it
  lower-cases the text and tests it for substrings in a fixed order, user-rejected
  first, then insufficient-funds, wrong-network, contract-revert (whose detail is
  chosen by further substrings: sold out, not yet active, per-wallet cap, allowlist,
  else a general sentence), allowance, network/RPC, and \<open>unknown\<close> when nothing
  matches. A text matching several categories gets the earliest one; every text gets
  one of the seven types. For an argument whose text cannot be read, \<open>parseError\<close>
  throws what the read throws. This holds whatever lower-casing function is used.
\<close>

theorem parseError_priority:
  "(\<forall>t. error_text lowerCase err = Inr t \<longrightarrow>
      (\<exists>pe. parseError lowerCase err ctx = Inr pe \<and>
         (mentions_user_rejected t \<longrightarrow> type pe = User_rejected) \<and>
         (\<not> mentions_user_rejected t \<and> mentions_insufficient_funds t
            \<longrightarrow> type pe = Insufficient_funds) \<and>
         (\<not> mentions_user_rejected t \<and> \<not> mentions_insufficient_funds t \<and>
          mentions_wrong_network t
            \<longrightarrow> type pe = Wrong_network) \<and>
         (\<not> mentions_user_rejected t \<and> \<not> mentions_insufficient_funds t \<and>
          \<not> mentions_wrong_network t \<and> mentions_revert t
            \<longrightarrow> type pe = Contract_error \<and> message pe = ''Transaction failed'' \<and>
                details pe = Some (revert_details t) \<and>
                actionText pe = Some ''Try again later'') \<and>
         (\<not> mentions_user_rejected t \<and> \<not> mentions_insufficient_funds t \<and>
          \<not> mentions_wrong_network t \<and> \<not> mentions_revert t \<and>
          mentions_allowance t
            \<longrightarrow> type pe = Allowance_error) \<and>
         (\<not> mentions_user_rejected t \<and> \<not> mentions_insufficient_funds t \<and>
          \<not> mentions_wrong_network t \<and> \<not> mentions_revert t \<and>
          \<not> mentions_allowance t \<and> mentions_rpc t
            \<longrightarrow> type pe = Network_error) \<and>
         (\<not> mentions_user_rejected t \<and> \<not> mentions_insufficient_funds t \<and>
          \<not> mentions_wrong_network t \<and> \<not> mentions_revert t \<and>
          \<not> mentions_allowance t \<and> \<not> mentions_rpc t
            \<longrightarrow> type pe = Unknown))) \<and>
   (\<forall>x. error_text lowerCase err = Inl x \<longrightarrow> parseError lowerCase err ctx = Inl x) \<and>
   ((str_includes m ''sold out'' \<or> str_includes m ''max supply''
       \<longrightarrow> revert_details m = ''This NFT is sold out or has reached maximum supply.'') \<and>
    (\<not> str_includes m ''sold out'' \<and> \<not> str_includes m ''max supply'' \<and>
     (str_includes m ''not started'' \<or> str_includes m ''not active'')
       \<longrightarrow> revert_details m = ''Minting hasn't started yet or has ended.'') \<and>
    (\<not> str_includes m ''sold out'' \<and> \<not> str_includes m ''max supply'' \<and>
     \<not> str_includes m ''not started'' \<and> \<not> str_includes m ''not active'' \<and>
     (str_includes m ''max per wallet'' \<or> str_includes m ''exceeds max'')
       \<longrightarrow> revert_details m = ''You've reached the maximum amount allowed per wallet.'') \<and>
    (\<not> str_includes m ''sold out'' \<and> \<not> str_includes m ''max supply'' \<and>
     \<not> str_includes m ''not started'' \<and> \<not> str_includes m ''not active'' \<and>
     \<not> str_includes m ''max per wallet'' \<and> \<not> str_includes m ''exceeds max'' \<and>
     (str_includes m ''allowlist'' \<or> str_includes m ''not eligible'')
       \<longrightarrow> revert_details m
             = ''You're not eligible to mint this NFT. Check if it requires an allowlist.'') \<and>
    (\<not> str_includes m ''sold out'' \<and> \<not> str_includes m ''max supply'' \<and>
     \<not> str_includes m ''not started'' \<and> \<not> str_includes m ''not active'' \<and>
     \<not> str_includes m ''max per wallet'' \<and> \<not> str_includes m ''exceeds max'' \<and>
     \<not> str_includes m ''allowlist'' \<and> \<not> str_includes m ''not eligible''
       \<longrightarrow> revert_details m = ''The contract rejected this transaction.'')) \<and>
   (error_text lowerCase (ErrorObject msg) = Inr (lowerCase msg) \<and>
    error_text lowerCase (OtherValue msg) = Inr (lowerCase msg) \<and>
    error_text lowerCase ErrorObject_nonstring_message
      = Inl (TypeError ''error.message.toLowerCase is not a function'') \<and>
    error_text lowerCase (Unconvertible x) = Inl x) \<and>
   (str_includes m pat \<longleftrightarrow> (\<exists>a b. m = a @ pat @ b))"
proof -
  have types: "\<forall>t. error_text lowerCase err = Inr t \<longrightarrow>
      (\<exists>pe. parseError lowerCase err ctx = Inr pe \<and>
         (mentions_user_rejected t \<longrightarrow> type pe = User_rejected) \<and>
         (\<not> mentions_user_rejected t \<and> mentions_insufficient_funds t
            \<longrightarrow> type pe = Insufficient_funds) \<and>
         (\<not> mentions_user_rejected t \<and> \<not> mentions_insufficient_funds t \<and>
          mentions_wrong_network t
            \<longrightarrow> type pe = Wrong_network) \<and>
         (\<not> mentions_user_rejected t \<and> \<not> mentions_insufficient_funds t \<and>
          \<not> mentions_wrong_network t \<and> mentions_revert t
            \<longrightarrow> type pe = Contract_error \<and> message pe = ''Transaction failed'' \<and>
                details pe = Some (revert_details t) \<and>
                actionText pe = Some ''Try again later'') \<and>
         (\<not> mentions_user_rejected t \<and> \<not> mentions_insufficient_funds t \<and>
          \<not> mentions_wrong_network t \<and> \<not> mentions_revert t \<and>
          mentions_allowance t
            \<longrightarrow> type pe = Allowance_error) \<and>
         (\<not> mentions_user_rejected t \<and> \<not> mentions_insufficient_funds t \<and>
          \<not> mentions_wrong_network t \<and> \<not> mentions_revert t \<and>
          \<not> mentions_allowance t \<and> mentions_rpc t
            \<longrightarrow> type pe = Network_error) \<and>
         (\<not> mentions_user_rejected t \<and> \<not> mentions_insufficient_funds t \<and>
          \<not> mentions_wrong_network t \<and> \<not> mentions_revert t \<and>
          \<not> mentions_allowance t \<and> \<not> mentions_rpc t
            \<longrightarrow> type pe = Unknown))"
    by (intro allI impI) (rule parseError_types)
  have throws: "\<forall>x. error_text lowerCase err = Inl x \<longrightarrow> parseError lowerCase err ctx = Inl x"
    by (intro allI impI) (rule parseError_throws)
  show ?thesis
    by (rule conjI [OF types conjI [OF throws
          conjI [OF revert_details_cases conjI [OF error_text_cases str_includes_iff]]]])
qed

theorem parseError_priority_witness:
  "(\<exists>pe. parseError toLowerCase
           (ErrorObject ''User rejected the request (insufficient funds for gas)'') Mint
         = Inr pe \<and> type pe = User_rejected) \<and>
   (\<exists>pe. parseError toLowerCase (ErrorObject ''Insufficient funds for gas * price + value'') Mint
         = Inr pe \<and> type pe = Insufficient_funds) \<and>
   (\<exists>pe. parseError toLowerCase (OtherValue ''Chain mismatch: execution reverted'') Mint
         = Inr pe \<and> type pe = Wrong_network) \<and>
   parseError toLowerCase (ErrorObject ''Execution reverted: Sold Out'') Mint
     = Inr \<lparr> type = Contract_error, message = ''Transaction failed'',
             details = Some ''This NFT is sold out or has reached maximum supply.'',
             actionText = Some ''Try again later'' \<rparr> \<and>
   (\<exists>pe. parseError toLowerCase (ErrorObject ''ERC20: transfer amount exceeds allowance'')
           Approval
         = Inr pe \<and> type pe = Allowance_error) \<and>
   (\<exists>pe. parseError toLowerCase (ErrorObject ''RPC request timed out'') Mint
         = Inr pe \<and> type pe = Network_error) \<and>
   (\<exists>pe. parseError toLowerCase (ErrorObject ''Something odd happened'') Mint
         = Inr pe \<and> type pe = Unknown) \<and>
   parseError toLowerCase ErrorObject_nonstring_message Mint
     = Inl (TypeError ''error.message.toLowerCase is not a function'')"
proof -
  have u: "mentions_user_rejected
             (toLowerCase ''User rejected the request (insufficient funds for gas)'')"
    by code_simp
  have f: "\<not> mentions_user_rejected (toLowerCase ''Insufficient funds for gas * price + value'') \<and>
           mentions_insufficient_funds (toLowerCase ''Insufficient funds for gas * price + value'')"
    by code_simp
  have n: "\<not> mentions_user_rejected (toLowerCase ''Chain mismatch: execution reverted'') \<and>
           \<not> mentions_insufficient_funds (toLowerCase ''Chain mismatch: execution reverted'') \<and>
           mentions_wrong_network (toLowerCase ''Chain mismatch: execution reverted'')"
    by code_simp
  have r: "\<not> mentions_user_rejected (toLowerCase ''Execution reverted: Sold Out'') \<and>
           \<not> mentions_insufficient_funds (toLowerCase ''Execution reverted: Sold Out'') \<and>
           \<not> mentions_wrong_network (toLowerCase ''Execution reverted: Sold Out'') \<and>
           mentions_revert (toLowerCase ''Execution reverted: Sold Out'')"
    by code_simp
  have rs: "str_includes (toLowerCase ''Execution reverted: Sold Out'') ''sold out''"
    by code_simp
  have al: "\<not> mentions_user_rejected (toLowerCase ''ERC20: transfer amount exceeds allowance'') \<and>
            \<not> mentions_insufficient_funds
                (toLowerCase ''ERC20: transfer amount exceeds allowance'') \<and>
            \<not> mentions_wrong_network (toLowerCase ''ERC20: transfer amount exceeds allowance'') \<and>
            \<not> mentions_revert (toLowerCase ''ERC20: transfer amount exceeds allowance'') \<and>
            mentions_allowance (toLowerCase ''ERC20: transfer amount exceeds allowance'')"
    by code_simp
  have rp: "\<not> mentions_user_rejected (toLowerCase ''RPC request timed out'') \<and>
            \<not> mentions_insufficient_funds (toLowerCase ''RPC request timed out'') \<and>
            \<not> mentions_wrong_network (toLowerCase ''RPC request timed out'') \<and>
            \<not> mentions_revert (toLowerCase ''RPC request timed out'') \<and>
            \<not> mentions_allowance (toLowerCase ''RPC request timed out'') \<and>
            mentions_rpc (toLowerCase ''RPC request timed out'')"
    by code_simp
  have un: "\<not> mentions_user_rejected (toLowerCase ''Something odd happened'') \<and>
            \<not> mentions_insufficient_funds (toLowerCase ''Something odd happened'') \<and>
            \<not> mentions_wrong_network (toLowerCase ''Something odd happened'') \<and>
            \<not> mentions_revert (toLowerCase ''Something odd happened'') \<and>
            \<not> mentions_allowance (toLowerCase ''Something odd happened'') \<and>
            \<not> mentions_rpc (toLowerCase ''Something odd happened'')"
    by code_simp
  have read_error: "error_text toLowerCase (ErrorObject s) = Inr (toLowerCase s)" for s
    using parseError_priority [THEN conjunct2, THEN conjunct2, THEN conjunct2, THEN conjunct1,
                               THEN conjunct1] .
  have read_other: "error_text toLowerCase (OtherValue s) = Inr (toLowerCase s)" for s
    using parseError_priority [THEN conjunct2, THEN conjunct2, THEN conjunct2, THEN conjunct1,
                               THEN conjunct2, THEN conjunct1] .
  have read_none: "error_text toLowerCase ErrorObject_nonstring_message
                     = Inl (TypeError ''error.message.toLowerCase is not a function'')"
    using parseError_priority [THEN conjunct2, THEN conjunct2, THEN conjunct2, THEN conjunct1,
                               THEN conjunct2, THEN conjunct2, THEN conjunct1] .
  have t1: "\<exists>pe. parseError toLowerCase (ErrorObject ''User rejected the request (insufficient funds for gas)'') Mint = Inr pe \<and>
                 type pe = User_rejected"
    using parseError_priority [of toLowerCase "ErrorObject ''User rejected the request (insufficient funds for gas)''" Mint,
                               THEN conjunct1, THEN spec, THEN mp, OF read_error]
  proof (elim exE conjE)
    fix pe
    assume eq: "parseError toLowerCase (ErrorObject ''User rejected the request (insufficient funds for gas)'') Mint = Inr pe"
      and imp: "mentions_user_rejected (toLowerCase ''User rejected the request (insufficient funds for gas)'')
                \<longrightarrow> type pe = User_rejected"
    from imp u have "type pe = User_rejected" by (rule mp)
    from conjI [OF eq this] show ?thesis by (rule exI)
  qed
  have t2: "\<exists>pe. parseError toLowerCase (ErrorObject ''Insufficient funds for gas * price + value'') Mint = Inr pe \<and>
                 type pe = Insufficient_funds"
    using parseError_priority [of toLowerCase "ErrorObject ''Insufficient funds for gas * price + value''" Mint,
                               THEN conjunct1, THEN spec, THEN mp, OF read_error]
  proof (elim exE conjE)
    fix pe
    assume eq: "parseError toLowerCase (ErrorObject ''Insufficient funds for gas * price + value'') Mint = Inr pe"
      and imp: "\<not> mentions_user_rejected (toLowerCase ''Insufficient funds for gas * price + value'') \<and>
                mentions_insufficient_funds (toLowerCase ''Insufficient funds for gas * price + value'')
                \<longrightarrow> type pe = Insufficient_funds"
    from imp f have "type pe = Insufficient_funds" by (rule mp)
    from conjI [OF eq this] show ?thesis by (rule exI)
  qed
  have t3: "\<exists>pe. parseError toLowerCase (OtherValue ''Chain mismatch: execution reverted'') Mint = Inr pe \<and>
                 type pe = Wrong_network"
    using parseError_priority [of toLowerCase "OtherValue ''Chain mismatch: execution reverted''" Mint,
                               THEN conjunct1, THEN spec, THEN mp, OF read_other]
  proof (elim exE conjE)
    fix pe
    assume eq: "parseError toLowerCase (OtherValue ''Chain mismatch: execution reverted'') Mint = Inr pe"
      and imp: "\<not> mentions_user_rejected (toLowerCase ''Chain mismatch: execution reverted'') \<and>
                \<not> mentions_insufficient_funds (toLowerCase ''Chain mismatch: execution reverted'') \<and>
                mentions_wrong_network (toLowerCase ''Chain mismatch: execution reverted'')
                \<longrightarrow> type pe = Wrong_network"
    from imp n have "type pe = Wrong_network" by (rule mp)
    from conjI [OF eq this] show ?thesis by (rule exI)
  qed
  have t5: "\<exists>pe. parseError toLowerCase (ErrorObject ''ERC20: transfer amount exceeds allowance'') Approval = Inr pe \<and>
                 type pe = Allowance_error"
    using parseError_priority [of toLowerCase "ErrorObject ''ERC20: transfer amount exceeds allowance''" Approval,
                               THEN conjunct1, THEN spec, THEN mp, OF read_error]
  proof (elim exE conjE)
    fix pe
    assume eq: "parseError toLowerCase (ErrorObject ''ERC20: transfer amount exceeds allowance'') Approval = Inr pe"
      and imp: "\<not> mentions_user_rejected (toLowerCase ''ERC20: transfer amount exceeds allowance'') \<and>
                \<not> mentions_insufficient_funds (toLowerCase ''ERC20: transfer amount exceeds allowance'') \<and>
                \<not> mentions_wrong_network (toLowerCase ''ERC20: transfer amount exceeds allowance'') \<and>
                \<not> mentions_revert (toLowerCase ''ERC20: transfer amount exceeds allowance'') \<and>
                mentions_allowance (toLowerCase ''ERC20: transfer amount exceeds allowance'')
                \<longrightarrow> type pe = Allowance_error"
    from imp al have "type pe = Allowance_error" by (rule mp)
    from conjI [OF eq this] show ?thesis by (rule exI)
  qed
  have t6: "\<exists>pe. parseError toLowerCase (ErrorObject ''RPC request timed out'') Mint = Inr pe \<and>
                 type pe = Network_error"
    using parseError_priority [of toLowerCase "ErrorObject ''RPC request timed out''" Mint,
                               THEN conjunct1, THEN spec, THEN mp, OF read_error]
  proof (elim exE conjE)
    fix pe
    assume eq: "parseError toLowerCase (ErrorObject ''RPC request timed out'') Mint = Inr pe"
      and imp: "\<not> mentions_user_rejected (toLowerCase ''RPC request timed out'') \<and>
                \<not> mentions_insufficient_funds (toLowerCase ''RPC request timed out'') \<and>
                \<not> mentions_wrong_network (toLowerCase ''RPC request timed out'') \<and>
                \<not> mentions_revert (toLowerCase ''RPC request timed out'') \<and>
                \<not> mentions_allowance (toLowerCase ''RPC request timed out'') \<and>
                mentions_rpc (toLowerCase ''RPC request timed out'')
                \<longrightarrow> type pe = Network_error"
    from imp rp have "type pe = Network_error" by (rule mp)
    from conjI [OF eq this] show ?thesis by (rule exI)
  qed
  have t7: "\<exists>pe. parseError toLowerCase (ErrorObject ''Something odd happened'') Mint = Inr pe \<and>
                 type pe = Unknown"
    using parseError_priority [of toLowerCase "ErrorObject ''Something odd happened''" Mint,
                               THEN conjunct1, THEN spec, THEN mp, OF read_error]
  proof (elim exE conjE)
    fix pe
    assume eq: "parseError toLowerCase (ErrorObject ''Something odd happened'') Mint = Inr pe"
      and imp: "\<not> mentions_user_rejected (toLowerCase ''Something odd happened'') \<and>
                \<not> mentions_insufficient_funds (toLowerCase ''Something odd happened'') \<and>
                \<not> mentions_wrong_network (toLowerCase ''Something odd happened'') \<and>
                \<not> mentions_revert (toLowerCase ''Something odd happened'') \<and>
                \<not> mentions_allowance (toLowerCase ''Something odd happened'') \<and>
                \<not> mentions_rpc (toLowerCase ''Something odd happened'')
                \<longrightarrow> type pe = Unknown"
    from imp un have "type pe = Unknown" by (rule mp)
    from conjI [OF eq this] show ?thesis by (rule exI)
  qed
  have d4: "revert_details (toLowerCase ''Execution reverted: Sold Out'')
              = ''This NFT is sold out or has reached maximum supply.''"
    using parseError_priority [THEN conjunct2, THEN conjunct2, THEN conjunct1, THEN conjunct1,
                               THEN mp, OF disjI1, OF rs] .
  have t4: "parseError toLowerCase (ErrorObject ''Execution reverted: Sold Out'') Mint
     = Inr \<lparr> type = Contract_error, message = ''Transaction failed'',
             details = Some ''This NFT is sold out or has reached maximum supply.'',
             actionText = Some ''Try again later'' \<rparr>"
    using parseError_priority [of toLowerCase "ErrorObject ''Execution reverted: Sold Out''" Mint,
                               THEN conjunct1, THEN spec, THEN mp, OF read_error]
  proof (elim exE conjE)
    fix pe
    assume eq: "parseError toLowerCase (ErrorObject ''Execution reverted: Sold Out'') Mint = Inr pe"
      and imp: "\<not> mentions_user_rejected (toLowerCase ''Execution reverted: Sold Out'') \<and>
                \<not> mentions_insufficient_funds (toLowerCase ''Execution reverted: Sold Out'') \<and>
                \<not> mentions_wrong_network (toLowerCase ''Execution reverted: Sold Out'') \<and>
                mentions_revert (toLowerCase ''Execution reverted: Sold Out'')
                \<longrightarrow> type pe = Contract_error \<and> message pe = ''Transaction failed'' \<and>
                    details pe
                      = Some (revert_details (toLowerCase ''Execution reverted: Sold Out'')) \<and>
                    actionText pe = Some ''Try again later''"
    from imp r have fields: "type pe = Contract_error \<and> message pe = ''Transaction failed'' \<and>
                    details pe
                      = Some (revert_details (toLowerCase ''Execution reverted: Sold Out'')) \<and>
                    actionText pe = Some ''Try again later''"
      by (rule mp)
    have "pe = \<lparr> type = Contract_error, message = ''Transaction failed'',
                  details = Some ''This NFT is sold out or has reached maximum supply.'',
                  actionText = Some ''Try again later'' \<rparr>"
      using fields d4 by (cases pe) simp
    with eq show ?thesis by simp
  qed
  have t8: "parseError toLowerCase ErrorObject_nonstring_message Mint
              = Inl (TypeError ''error.message.toLowerCase is not a function'')"
    using parseError_priority [THEN conjunct2, THEN conjunct1, THEN spec, THEN mp, OF read_none] .
  show ?thesis
    by (rule conjI [OF t1 conjI [OF t2 conjI [OF t3 conjI [OF t4 conjI [OF t5 conjI [OF t6
          conjI [OF t7 t8]]]]]]])
qed

end
